theory Spec2Isabelle
  imports Complex_Main "HOL-Library.Product_Lexorder"
begin

section \<open>Data model\<close>

text \<open>
  Python exceptions that the modelled code can raise become values of \<open>error\<close>;
  a function that can raise returns \<open>error + 'a\<close> with \<open>Inl\<close> for the exception.
\<close>

datatype error =
    ValueError
  | ZeroDivisionError
  | TypeError
  | IndexError
  | DataError
  | HTTPException nat string

text \<open>
  \<open>datetime.time\<close>: naive times compare as the tuples
  (hour, minute, second, microsecond), lexicographically.
\<close>

record time =
  hour :: nat
  minute :: nat
  second :: nat
  microsecond :: nat

definition time_le :: "time \<Rightarrow> time \<Rightarrow> bool" where
  "time_le a b \<longleftrightarrow>
     (hour a, minute a, second a, microsecond a) \<le> (hour b, minute b, second b, microsecond b)"

text \<open>
  \<open>datetime.datetime\<close>: the date as its proleptic Gregorian ordinal
  (\<open>date.toordinal()\<close>, day 1 is Monday 0001-01-01) and the time of day.
  \<open>weekday()\<close> is \<open>(toordinal() + 6) % 7\<close>, so 0 is Monday and 6 is Sunday.
\<close>

record datetime =
  ordinal :: nat
  time_of_day :: time

definition weekday :: "datetime \<Rightarrow> int" where
  "weekday dt = (int (ordinal dt) + 6) mod 7"

text \<open>Truthiness of a nullable Boolean column: \<open>None\<close> and \<open>False\<close> are falsy.\<close>

fun truthy :: "bool option \<Rightarrow> bool" where
  "truthy None = False"
| "truthy (Some b) = b"

text \<open>Truthiness of an optional string: \<open>None\<close> and the empty string are falsy.\<close>

fun nonempty :: "string option \<Rightarrow> bool" where
  "nonempty None = False"
| "nonempty (Some s) = (s \<noteq> [])"

section \<open>Geocoding (scraper/processors/geocoding.py)\<close>

text \<open>
  The HTTP lookup at Nominatim is the parameter \<open>nominatim\<close>, from the query string to
  the first hit; a failed request or an exception is \<open>None\<close>.
\<close>

definition geocode ::
  "(string \<Rightarrow> (real \<times> real) option) \<Rightarrow> string option \<Rightarrow> string \<Rightarrow> string \<Rightarrow> (real \<times> real) option" where
  "geocode nominatim address city state =
     (if \<not> nonempty address then None
      else nominatim (the address @ '', '' @ city @ '', '' @ state))"

definition borough_center :: "string \<Rightarrow> (real \<times> real) option" where
  "borough_center borough =
     map_of [(''Manhattan'', (40.7831, - 73.9712)),
             (''Brooklyn'', (40.6782, - 73.9442)),
             (''Queens'', (40.7282, - 73.7949)),
             (''Bronx'', (40.8448, - 73.8648)),
             (''Staten Island'', (40.5795, - 74.1502))] borough"

definition geocode_with_fallback ::
  "(string \<Rightarrow> (real \<times> real) option) \<Rightarrow> string option \<Rightarrow> string \<Rightarrow> string \<Rightarrow> string option
   \<Rightarrow> string option \<Rightarrow> (real \<times> real) option" where
  "geocode_with_fallback nominatim address city state zip_code borough =
     (case geocode nominatim address city state of
        Some coords \<Rightarrow> Some coords
      | None \<Rightarrow>
          (case (if nonempty zip_code then geocode nominatim zip_code city state else None) of
             Some coords \<Rightarrow> Some coords
           | None \<Rightarrow> (if nonempty borough then borough_center (the borough) else None)))"

section \<open>Stored tables\<close>

text \<open>Rows of the table \<open>operating_hours\<close> (app/models/operating_hours.py).\<close>

record operating_hours =
  day_of_week :: int
  open_time :: "time option"
  close_time :: "time option"
  is_24_hours :: "bool option"
  is_closed :: "bool option"
  hours_notes :: "string option"

text \<open>
  A row of \<open>location_services\<close> with its eager-loaded \<open>service_type\<close>
  (of which the queries read the slug and the name).
\<close>

record service_type =
  slug :: string
  st_name :: string

record location_service =
  the_service_type :: service_type
  ls_notes :: "string option"
  capacity :: "int option"

text \<open>
  Rows of the table \<open>service_locations\<close> (app/models/service_location.py) with the two
  relationships the queries load eagerly. Nullable columns are options; \<open>deleted_at\<close>
  is the soft-delete timestamp; \<open>location_id\<close> is the primary key \<open>id\<close> (a UUID,
  here a number). A table is the list of its rows, and a row object is addressed by its
  position in that list.
\<close>

record service_location =
  location_id :: nat
  name :: string
  description :: "string option"
  organization_name :: "string option"
  street_address :: "string option"
  city :: "string option"
  state :: "string option"
  zip_code :: "string option"
  borough :: "string option"
  latitude :: "real option"
  longitude :: "real option"
  phone :: "string option"
  website :: "string option"
  wheelchair_accessible :: "bool option"
  languages_spoken :: "string list option"
  data_source :: "string option"
  external_id :: "string option"
  verified :: "bool option"
  deleted_at :: "nat option"
  location_services :: "location_service list"
  operating_hours :: "operating_hours list"

section \<open>Open-now evaluation (GeospatialService._calculate_is_open_now)\<close>

text \<open>
  The source reads the clock with \<open>datetime.now()\<close>; the model takes that reading as
  the argument \<open>now\<close>. \<open>current_day\<close> converts Python's weekday to the stored
  convention 0 = Sunday.
\<close>

definition current_day :: "datetime \<Rightarrow> int" where
  "current_day now = (weekday now + 1) mod 7"

text \<open>The \<open>for hours in today_hours\<close> loop.\<close>

fun open_loop :: "time \<Rightarrow> operating_hours list \<Rightarrow> bool" where
  "open_loop t [] = False"
| "open_loop t (h # hs) =
     (if truthy (is_closed h) then open_loop t hs
      else if truthy (is_24_hours h) then True
      else (case open_time h of
              None \<Rightarrow> open_loop t hs
            | Some ot \<Rightarrow>
                (case close_time h of
                   None \<Rightarrow> open_loop t hs
                 | Some ct \<Rightarrow>
                     if time_le ot t \<and> time_le t ct then True else open_loop t hs)))"

definition calculate_is_open_now :: "datetime \<Rightarrow> operating_hours list \<Rightarrow> bool" where
  "calculate_is_open_now now operating_hours_list =
     (if operating_hours_list = [] then False
      else
        let today_hours = filter (\<lambda>h. day_of_week h = current_day now) operating_hours_list
        in if today_hours = [] then False else open_loop (time_of_day now) today_hours)"

text \<open>
  The evaluation as the specification words it: among today's entries, some entry is
  marked 24 hours, or is not marked closed and has the time of day between its opening
  and closing times.
\<close>

definition open_now_as_specified :: "datetime \<Rightarrow> operating_hours list \<Rightarrow> bool" where
  "open_now_as_specified now entries =
     (let today = filter (\<lambda>h. day_of_week h = current_day now) entries
      in if today = [] then False
         else list_ex (\<lambda>h. is_24_hours h = Some True \<or>
                (is_closed h \<noteq> Some True \<and>
                 (case (open_time h, close_time h) of
                    (Some ot, Some ct) \<Rightarrow> time_le ot (time_of_day now) \<and> time_le (time_of_day now) ct
                  | _ \<Rightarrow> False))) today)"


section \<open>Great-circle distance (GeospatialService.haversine_distance)\<close>

text \<open>
  Floats are modelled as real numbers. \<open>math.atan2\<close> is written out by quadrant, and
  \<open>math.sqrt\<close> of a negative number raises \<open>ValueError\<close>.
\<close>

definition radians :: "real \<Rightarrow> real" where
  "radians x = x * (pi / 180)"

definition atan2 :: "real \<Rightarrow> real \<Rightarrow> real" where
  "atan2 y x =
     (if 0 < x then arctan (y / x)
      else if x < 0 then (if 0 \<le> y then arctan (y / x) + pi else arctan (y / x) - pi)
      else if 0 < y then pi / 2
      else if y < 0 then - (pi / 2)
      else 0)"

definition haversine_a :: "real \<Rightarrow> real \<Rightarrow> real \<Rightarrow> real \<Rightarrow> real" where
  "haversine_a lat1 lon1 lat2 lon2 =
     (let phi1 = radians lat1;
          phi2 = radians lat2;
          delta_phi = radians (lat2 - lat1);
          delta_lambda = radians (lon2 - lon1)
      in (sin (delta_phi / 2))\<^sup>2 + cos phi1 * cos phi2 * (sin (delta_lambda / 2))\<^sup>2)"

definition haversine_distance :: "real \<Rightarrow> real \<Rightarrow> real \<Rightarrow> real \<Rightarrow> error + real" where
  "haversine_distance lat1 lon1 lat2 lon2 =
     (let R = 6371000;
          a = haversine_a lat1 lon1 lat2 lon2
      in if a < 0 \<or> 1 - a < 0 then Inl ValueError
         else let c = 2 * atan2 (sqrt a) (sqrt (1 - a)) in Inr (R * c))"

section \<open>Nearby query (GeospatialService.find_nearby)\<close>

text \<open>
  The bounding box of the prefilter, as (min_lat, max_lat, min_lon, max_lon). Dividing by
  \<open>111.0 * cos(radians(lat))\<close> raises \<open>ZeroDivisionError\<close> when that product is zero.
\<close>

definition bounding_box :: "real \<Rightarrow> real \<Rightarrow> real \<Rightarrow> error + (real \<times> real \<times> real \<times> real)" where
  "bounding_box lat lon radius_km =
     (let lat_offset = radius_km / 111.0
      in if 111.0 * cos (radians lat) = 0 then Inl ZeroDivisionError
         else
           let lon_offset = radius_km / (111.0 * cos (radians lat));
               min_lat = lat - lat_offset;
               max_lat = lat + lat_offset;
               min_lon = lon - lon_offset;
               max_lon = lon + lon_offset
           in Inr (min_lat, max_lat, min_lon, max_lon))"

text \<open>
  The WHERE clause shared by both queries: the row is not soft-deleted and its coordinates
  lie in the closed rectangle. A comparison with a NULL coordinate is not true in SQL.
\<close>

definition in_rectangle :: "real \<times> real \<times> real \<times> real \<Rightarrow> service_location \<Rightarrow> bool" where
  "in_rectangle box l =
     (case box of (min_lat, max_lat, min_lon, max_lon) \<Rightarrow>
        deleted_at l = None \<and>
        (case latitude l of None \<Rightarrow> False | Some la \<Rightarrow> min_lat \<le> la \<and> la \<le> max_lat) \<and>
        (case longitude l of None \<Rightarrow> False | Some lo \<Rightarrow> min_lon \<le> lo \<and> lo \<le> max_lon))"

text \<open>
  The join with \<open>location_services\<close> and \<open>service_types\<close> filtered by
  \<open>slug IN (...)\<close>, made distinct: the location has an assignment whose slug is listed.
\<close>

definition has_service_type :: "string list \<Rightarrow> service_location \<Rightarrow> bool" where
  "has_service_type slugs l = list_ex (\<lambda>ls. slug (the_service_type ls) \<in> set slugs) (location_services l)"

text \<open>
  \<open>if service_types:\<close> holds for a list that is neither \<open>None\<close> nor empty; only
  then is the join added to the query.
\<close>

fun given :: "string list option \<Rightarrow> bool" where
  "given None = False"
| "given (Some xs) = (xs \<noteq> [])"

fun service_type_filter :: "string list option \<Rightarrow> service_location \<Rightarrow> bool" where
  "service_type_filter None l = True"
| "service_type_filter (Some slugs) l = (if slugs = [] then True else has_service_type slugs l)"

text \<open>
  The loop that computes the exact distance of every fetched row and keeps the rows within
  the radius. An exception of \<open>haversine_distance\<close> ends the call.
\<close>

fun locations_with_distance ::
  "real \<Rightarrow> real \<Rightarrow> real \<Rightarrow> service_location list \<Rightarrow> error + (service_location \<times> real) list" where
  "locations_with_distance lat lon radius_km [] = Inr []"
| "locations_with_distance lat lon radius_km (location # locations) =
     (case latitude location of
        None \<Rightarrow> locations_with_distance lat lon radius_km locations
      | Some la \<Rightarrow>
          (case longitude location of
             None \<Rightarrow> locations_with_distance lat lon radius_km locations
           | Some lo \<Rightarrow>
               (case haversine_distance lat lon la lo of
                  Inl e \<Rightarrow> Inl e
                | Inr distance_meters \<Rightarrow>
                    (case locations_with_distance lat lon radius_km locations of
                       Inl e \<Rightarrow> Inl e
                     | Inr rest \<Rightarrow>
                         if distance_meters \<le> radius_km * 1000
                         then Inr ((location, distance_meters) # rest)
                         else Inr rest))))"

text \<open>Python's slice \<open>xs[:n]\<close>; a negative \<open>n\<close> counts from the end.\<close>

definition slice_to :: "int \<Rightarrow> 'a list \<Rightarrow> 'a list" where
  "slice_to n xs = (if 0 \<le> n then take (nat n) xs else take (nat (int (length xs) + n)) xs)"

text \<open>
  \<open>round(x, 2)\<close>: the nearest multiple of one hundredth, a tie going to the even one.
\<close>

definition round2 :: "real \<Rightarrow> real" where
  "round2 x =
     (let y = x * 100; f = \<lfloor>y\<rfloor>
      in real_of_int (if y - real_of_int f < 1 / 2 then f
                      else if 1 / 2 < y - real_of_int f then f + 1
                      else if even f then f else f + 1) / 100)"

text \<open>
  The response built for a location: the fields copied from the row (the row itself here),
  the reported distance in kilometres and the open-now flag. Indexing \<open>day_names\<close>
  with a \<open>day_of_week\<close> outside \<open>-7..6\<close> raises \<open>IndexError\<close>.
\<close>

record service_location_response =
  response_location :: service_location
  distance_km :: real
  is_open_now :: bool

definition day_names_ok :: "service_location \<Rightarrow> bool" where
  "day_names_ok l = list_all (\<lambda>h. - 7 \<le> day_of_week h \<and> day_of_week h \<le> 6) (operating_hours l)"

text \<open>The \<open>ServiceLocationResponse\<close> that \<open>find_nearby\<close> builds for a kept location.\<close>

definition nearby_response ::
  "datetime \<Rightarrow> service_location \<Rightarrow> real \<Rightarrow> service_location_response" where
  "nearby_response now location distance_meters =
     \<lparr>response_location = location,
      distance_km = round2 (distance_meters / 1000),
      is_open_now = calculate_is_open_now now (operating_hours location)\<rparr>"

fun build_responses ::
  "datetime \<Rightarrow> bool \<Rightarrow> (service_location \<times> real) list \<Rightarrow> error + service_location_response list" where
  "build_responses now open_now [] = Inr []"
| "build_responses now open_now ((location, distance_meters) # rest) =
     (let is_open = calculate_is_open_now now (operating_hours location)
      in if open_now \<and> \<not> is_open then build_responses now open_now rest
         else if \<not> day_names_ok location then Inl IndexError
         else (case build_responses now open_now rest of
                 Inl e \<Rightarrow> Inl e
               | Inr responses \<Rightarrow>
                   Inr (nearby_response now location distance_meters # responses)))"

text \<open>The query executed against the table: the rows of the box, filtered by category.\<close>

definition nearby_query ::
  "real \<times> real \<times> real \<times> real \<Rightarrow> string list option \<Rightarrow> service_location list
   \<Rightarrow> service_location list" where
  "nearby_query box service_types db =
     filter (\<lambda>l. in_rectangle box l \<and> service_type_filter service_types l) db"

definition find_nearby ::
  "service_location list \<Rightarrow> datetime \<Rightarrow> real \<Rightarrow> real \<Rightarrow> real \<Rightarrow> string list option \<Rightarrow> bool \<Rightarrow> int
   \<Rightarrow> error + service_location_response list" where
  "find_nearby db now lat lon radius_km service_types open_now limit =
     (let safe_limit = min limit 500
      in case bounding_box lat lon radius_km of
           Inl e \<Rightarrow> Inl e
         | Inr box \<Rightarrow>
             let locations = nearby_query box service_types db
             in case locations_with_distance lat lon radius_km locations of
                  Inl e \<Rightarrow> Inl e
                | Inr lwd \<Rightarrow> build_responses now open_now (slice_to safe_limit (sort_key snd lwd)))"


text \<open>
  The open-now query as the specification words it: the open candidates within the radius,
  closest first, cut to the clamped limit.
\<close>

definition closest_open_as_specified ::
  "service_location list \<Rightarrow> datetime \<Rightarrow> real \<Rightarrow> real \<Rightarrow> real \<Rightarrow> string list option \<Rightarrow> int
   \<Rightarrow> error + service_location list" where
  "closest_open_as_specified db now lat lon radius_km service_types limit =
     (case bounding_box lat lon radius_km of
        Inl e \<Rightarrow> Inl e
      | Inr box \<Rightarrow>
          (case locations_with_distance lat lon radius_km (nearby_query box service_types db) of
             Inl e \<Rightarrow> Inl e
           | Inr lwd \<Rightarrow>
               Inr (map fst (take (nat (min limit 500))
                      (filter (\<lambda>(l, d). calculate_is_open_now now (operating_hours l))
                         (sort_key snd lwd))))))"

section \<open>Viewport query (GeospatialService.find_in_bounds and its endpoint)\<close>

text \<open>
  \<open>DISTINCT ON (id)\<close> keeps the first row of each \<open>id\<close>; \<open>LIMIT\<close> with a negative
  count is rejected by the database.
\<close>

fun distinct_on_id :: "nat list \<Rightarrow> service_location list \<Rightarrow> service_location list" where
  "distinct_on_id seen [] = []"
| "distinct_on_id seen (l # ls) =
     (if location_id l \<in> set seen then distinct_on_id seen ls
      else l # distinct_on_id (location_id l # seen) ls)"

definition distance_expr :: "real \<Rightarrow> real \<Rightarrow> service_location \<Rightarrow> real" where
  "distance_expr center_lat center_lng l =
     sqrt ((the (latitude l) - center_lat)\<^sup>2 + (the (longitude l) - center_lng)\<^sup>2)"

fun build_bounds_responses ::
  "datetime \<Rightarrow> bool \<Rightarrow> (real \<times> real) option \<Rightarrow> service_location list
   \<Rightarrow> error + service_location_response list" where
  "build_bounds_responses now open_now center [] = Inr []"
| "build_bounds_responses now open_now center (location # locations) =
     (case latitude location of
        None \<Rightarrow> build_bounds_responses now open_now center locations
      | Some la \<Rightarrow>
          (case longitude location of
             None \<Rightarrow> build_bounds_responses now open_now center locations
           | Some lo \<Rightarrow>
               (let is_open = calculate_is_open_now now (operating_hours location)
                in if open_now \<and> \<not> is_open then build_bounds_responses now open_now center locations
                   else
                     (case (case center of
                              None \<Rightarrow> Inr 0
                            | Some (center_lat, center_lng) \<Rightarrow>
                                (case haversine_distance center_lat center_lng la lo of
                                   Inl e \<Rightarrow> Inl e
                                 | Inr distance_m \<Rightarrow> Inr (distance_m / 1000))) of
                        Inl e \<Rightarrow> Inl e
                      | Inr km \<Rightarrow>
                          if \<not> day_names_ok location then Inl IndexError
                          else (case build_bounds_responses now open_now center locations of
                                  Inl e \<Rightarrow> Inl e
                                | Inr responses \<Rightarrow>
                                    Inr (\<lparr>response_location = location, distance_km = km,
                                           is_open_now = is_open\<rparr> # responses))))))"

text \<open>
  The parameters are those of the source's signature, in its order; the clock reading
  \<open>now\<close> and the table \<open>db\<close> are made explicit. There is no \<open>open_today\<close> parameter.
\<close>

definition find_in_bounds ::
  "service_location list \<Rightarrow> datetime \<Rightarrow> real \<Rightarrow> real \<Rightarrow> real \<Rightarrow> real \<Rightarrow> real option \<Rightarrow> real option
   \<Rightarrow> string list option \<Rightarrow> string list option \<Rightarrow> bool \<Rightarrow> int
   \<Rightarrow> error + service_location_response list" where
  "find_in_bounds db now min_lat max_lat min_lng max_lng center_lat center_lng
      service_types exclude_service_types open_now limit =
     (let safe_limit = min limit 100;
          rows = filter (in_rectangle (min_lat, max_lat, min_lng, max_lng)) db;
          center = (case center_lat of
                      None \<Rightarrow> None
                    | Some clat \<Rightarrow> (case center_lng of None \<Rightarrow> None | Some clng \<Rightarrow> Some (clat, clng)));
          ordered =
            (if given service_types then
               (let joined = filter (has_service_type (the service_types)) rows
                in case center of
                     None \<Rightarrow> distinct_on_id [] joined
                   | Some (clat, clng) \<Rightarrow>
                       distinct_on_id []
                         (sort_key (\<lambda>l. (location_id l, distance_expr clat clng l)) joined))
             else if given exclude_service_types then
               (let kept = filter (\<lambda>l. \<not> has_service_type (the exclude_service_types) l) rows
                in case center of
                     None \<Rightarrow> kept
                   | Some (clat, clng) \<Rightarrow> sort_key (distance_expr clat clng) kept)
             else
               (case center of
                  None \<Rightarrow> rows
                | Some (clat, clng) \<Rightarrow> sort_key (distance_expr clat clng) rows))
      in if safe_limit < 0 then Inl DataError
         else build_bounds_responses now open_now center (take (nat safe_limit) ordered))"

text \<open>
  A Python call that passes a keyword which is not a parameter of the callee (and the
  callee takes no \<open>**kwargs\<close>) raises \<open>TypeError\<close> before the body runs.
\<close>

definition find_in_bounds_parameters :: "string list" where
  "find_in_bounds_parameters =
     [''min_lat'', ''max_lat'', ''min_lng'', ''max_lng'', ''center_lat'', ''center_lng'',
      ''service_types'', ''exclude_service_types'', ''open_now'', ''limit'']"

definition accepts_keywords :: "string list \<Rightarrow> string list \<Rightarrow> bool" where
  "accepts_keywords parameters keywords = list_all (\<lambda>k. k \<in> set parameters) keywords"

text \<open>
  The endpoint \<open>get_services_in_bounds\<close> (app/routers/public.py): it validates the
  bounds, then calls \<open>find_in_bounds\<close> with eleven keywords, \<open>open_today\<close> among them.
\<close>

definition get_services_in_bounds ::
  "service_location list \<Rightarrow> datetime \<Rightarrow> real \<Rightarrow> real \<Rightarrow> real \<Rightarrow> real \<Rightarrow> real option \<Rightarrow> real option
   \<Rightarrow> string list option \<Rightarrow> string list option \<Rightarrow> bool \<Rightarrow> bool \<Rightarrow> int
   \<Rightarrow> error + service_location_response list" where
  "get_services_in_bounds db now min_lat max_lat min_lng max_lng center_lat center_lng
      service_types exclude_service_types open_now open_today limit =
     (if min_lat \<ge> max_lat then Inl (HTTPException 400 ''min_lat must be less than max_lat'')
      else if min_lng \<ge> max_lng then Inl (HTTPException 400 ''min_lng must be less than max_lng'')
      else if \<not> accepts_keywords find_in_bounds_parameters
                 [''min_lat'', ''max_lat'', ''min_lng'', ''max_lng'', ''center_lat'', ''center_lng'',
                  ''service_types'', ''exclude_service_types'', ''open_now'', ''open_today'',
                  ''limit'']
           then Inl TypeError
      else find_in_bounds db now min_lat max_lat min_lng max_lng center_lat center_lng
             service_types exclude_service_types open_now limit)"


section \<open>Matching and merging (scraper/processors/deduplication.py)\<close>

text \<open>
  \<open>RawServiceData\<close> (scraper/models.py), with the fields that matching and merging
  read. \<open>external_id\<close> and \<open>data_source\<close> are required strings, which may be empty.
\<close>

record raw_service_data =
  raw_name :: string
  raw_organization_name :: "string option"
  raw_description :: "string option"
  raw_street_address :: "string option"
  raw_city :: string
  raw_state :: string
  raw_zip_code :: "string option"
  raw_borough :: "string option"
  raw_phone :: "string option"
  raw_website :: "string option"
  raw_service_types :: "string list"
  raw_wheelchair_accessible :: "bool option"
  raw_languages_spoken :: "string list option"
  raw_external_id :: string
  raw_data_source :: string

text \<open>\<open>str.lower()\<close> on ASCII text.\<close>

definition lower_char :: "char \<Rightarrow> char" where
  "lower_char c =
     (case map_of (zip ''ABCDEFGHIJKLMNOPQRSTUVWXYZ'' ''abcdefghijklmnopqrstuvwxyz'') c of
        None \<Rightarrow> c
      | Some d \<Rightarrow> d)"

definition lower :: "string \<Rightarrow> string" where
  "lower s = map lower_char s"

text \<open>\<open>Query.first()\<close>: the position of the first row that satisfies the filter.\<close>

fun first_index :: "('a \<Rightarrow> bool) \<Rightarrow> 'a list \<Rightarrow> nat option" where
  "first_index P [] = None"
| "first_index P (x # xs) =
     (if P x then Some 0 else map_option Suc (first_index P xs))"

text \<open>
  \<open>difflib.SequenceMatcher(None, a, b).ratio()\<close> belongs to the Python library; it is the
  parameter \<open>ratio\<close> of the functions below. The loop over the candidates carries each
  candidate's position in the table.
\<close>

definition address_similarity ::
  "(string \<Rightarrow> string \<Rightarrow> real) \<Rightarrow> raw_service_data \<Rightarrow> service_location \<Rightarrow> real" where
  "address_similarity ratio raw_data candidate =
     (if nonempty (raw_street_address raw_data) \<and> nonempty (street_address candidate)
      then ratio (lower (the (raw_street_address raw_data))) (lower (the (street_address candidate)))
      else 0.0)"

definition name_similarity ::
  "(string \<Rightarrow> string \<Rightarrow> real) \<Rightarrow> raw_service_data \<Rightarrow> service_location \<Rightarrow> real" where
  "name_similarity ratio raw_data candidate = ratio (lower (raw_name raw_data)) (lower (name candidate))"

fun fuzzy_loop ::
  "(string \<Rightarrow> string \<Rightarrow> real) \<Rightarrow> raw_service_data \<Rightarrow> (nat \<times> service_location) list \<Rightarrow> nat option" where
  "fuzzy_loop ratio raw_data [] = None"
| "fuzzy_loop ratio raw_data ((i, candidate) # candidates) =
     (if name_similarity ratio raw_data candidate > 0.85 \<and>
         address_similarity ratio raw_data candidate > 0.8
      then Some i
      else fuzzy_loop ratio raw_data candidates)"

definition external_id_match :: "service_location list \<Rightarrow> raw_service_data \<Rightarrow> nat option" where
  "external_id_match db raw_data =
     (if raw_external_id raw_data \<noteq> [] \<and> raw_data_source raw_data \<noteq> []
      then first_index (\<lambda>l. external_id l = Some (raw_external_id raw_data) \<and>
                            data_source l = Some (raw_data_source raw_data)) db
      else None)"

definition fuzzy_match ::
  "(string \<Rightarrow> string \<Rightarrow> real) \<Rightarrow> service_location list \<Rightarrow> raw_service_data \<Rightarrow> nat option" where
  "fuzzy_match ratio db raw_data =
     (if nonempty (raw_borough raw_data)
      then
        let candidates = filter (\<lambda>(i, l). borough l = raw_borough raw_data \<and> deleted_at l = None)
                           (enumerate 0 db)
        in fuzzy_loop ratio raw_data candidates
      else None)"

text \<open>\<open>Deduplicator.find_match\<close>: the position of the matching row, or \<open>None\<close>.\<close>

definition find_match ::
  "(string \<Rightarrow> string \<Rightarrow> real) \<Rightarrow> service_location list \<Rightarrow> raw_service_data \<Rightarrow> nat option" where
  "find_match ratio db raw_data =
     (case external_id_match db raw_data of
        Some i \<Rightarrow> Some i
      | None \<Rightarrow> fuzzy_match ratio db raw_data)"

text \<open>Python's \<open>a or b\<close> on the three kinds of optional field.\<close>

definition or_str :: "string option \<Rightarrow> string option \<Rightarrow> string option" where
  "or_str a b = (if nonempty a then a else b)"

definition or_bool :: "bool option \<Rightarrow> bool option \<Rightarrow> bool option" where
  "or_bool a b = (if truthy a then a else b)"

definition or_list :: "string list option \<Rightarrow> string list option \<Rightarrow> string list option" where
  "or_list a b = (if given a then a else b)"

definition update_existing ::
  "service_location \<Rightarrow> raw_service_data \<Rightarrow> real \<Rightarrow> real \<Rightarrow> service_location" where
  "update_existing existing raw_data lat lon =
     existing\<lparr>
       name := raw_name raw_data,
       description := or_str (raw_description raw_data) (description existing),
       organization_name := or_str (raw_organization_name raw_data) (organization_name existing),
       phone := or_str (raw_phone raw_data) (phone existing),
       website := or_str (raw_website raw_data) (website existing),
       wheelchair_accessible :=
         or_bool (raw_wheelchair_accessible raw_data) (wheelchair_accessible existing),
       languages_spoken := or_list (raw_languages_spoken raw_data) (languages_spoken existing),
       latitude := Some lat,
       longitude := Some lon\<rparr>"

text \<open>
  The new row: the columns the constructor sets; \<open>id\<close> is the fresh UUID given by the
  caller, \<open>deleted_at\<close> is NULL and both relationships are empty.
\<close>

definition new_location :: "nat \<Rightarrow> raw_service_data \<Rightarrow> real \<Rightarrow> real \<Rightarrow> service_location" where
  "new_location new_id raw_data lat lon =
     \<lparr>location_id = new_id,
      name = raw_name raw_data,
      description = raw_description raw_data,
      organization_name = raw_organization_name raw_data,
      street_address = raw_street_address raw_data,
      city = Some (raw_city raw_data),
      state = Some (raw_state raw_data),
      zip_code = raw_zip_code raw_data,
      borough = raw_borough raw_data,
      latitude = Some lat,
      longitude = Some lon,
      phone = raw_phone raw_data,
      website = raw_website raw_data,
      wheelchair_accessible = raw_wheelchair_accessible raw_data,
      languages_spoken = raw_languages_spoken raw_data,
      data_source = Some (raw_data_source raw_data),
      external_id = Some (raw_external_id raw_data),
      verified = Some False,
      deleted_at = None,
      location_services = [],
      operating_hours = []\<rparr>"

text \<open>
  \<open>Deduplicator.create_or_update\<close>: the table after the call and the position of the row
  returned. \<open>uuid4 k\<close> is the identifier drawn for a row added to a table of \<open>k\<close> rows.
\<close>

definition create_or_update ::
  "(string \<Rightarrow> string \<Rightarrow> real) \<Rightarrow> (nat \<Rightarrow> nat) \<Rightarrow> service_location list \<Rightarrow> raw_service_data
   \<Rightarrow> (real \<times> real) option \<Rightarrow> error + (service_location list \<times> nat)" where
  "create_or_update ratio uuid4 db raw_data coords =
     (case coords of
        None \<Rightarrow> Inl ValueError
      | Some (lat, lon) \<Rightarrow>
          (case find_match ratio db raw_data of
             Some i \<Rightarrow> Inr (db[i := update_existing (db ! i) raw_data lat lon], i)
           | None \<Rightarrow> Inr (db @ [new_location (uuid4 (length db)) raw_data lat lon], length db)))"

section \<open>Ingestion loop (scraper/main.py, run_all_scrapers)\<close>

record stats =
  total_scraped :: nat
  total_valid :: nat
  total_geocoded :: nat
  total_created :: nat
  total_updated :: nat
  total_failed :: nat

text \<open>
  The body of the loop over one scraper's records, on the table \<open>service_locations\<close>.
  \<open>add_services\<close> and \<open>add_operating_hours\<close> write the tables \<open>location_services\<close>
  and \<open>operating_hours\<close> only. An exception rolls the record back and counts it as failed.
\<close>

definition process_record ::
  "(string \<Rightarrow> (real \<times> real) option) \<Rightarrow> (string \<Rightarrow> string \<Rightarrow> real) \<Rightarrow> (nat \<Rightarrow> nat)
   \<Rightarrow> service_location list \<times> stats \<Rightarrow> raw_service_data \<Rightarrow> service_location list \<times> stats" where
  "process_record nominatim ratio uuid4 st data =
     (case st of (db, s) \<Rightarrow>
        (case geocode_with_fallback nominatim (raw_street_address data) (raw_city data)
                (raw_state data) (raw_zip_code data) (raw_borough data) of
           None \<Rightarrow> (db, s\<lparr>total_failed := total_failed s + 1\<rparr>)
         | Some coords \<Rightarrow>
             (let s1 = s\<lparr>total_geocoded := total_geocoded s + 1\<rparr>;
                  existing = find_match ratio db data
              in case create_or_update ratio uuid4 db data (Some coords) of
                   Inl e \<Rightarrow> (db, s1\<lparr>total_failed := total_failed s1 + 1\<rparr>)
                 | Inr (db', location) \<Rightarrow>
                     (if existing \<noteq> None
                      then (db', s1\<lparr>total_updated := total_updated s1 + 1\<rparr>)
                      else (db', s1\<lparr>total_created := total_created s1 + 1\<rparr>)))))"

definition run_scraper ::
  "(string \<Rightarrow> (real \<times> real) option) \<Rightarrow> (string \<Rightarrow> string \<Rightarrow> real) \<Rightarrow> (nat \<Rightarrow> nat)
   \<Rightarrow> service_location list \<times> stats \<Rightarrow> raw_service_data list \<Rightarrow> service_location list \<times> stats" where
  "run_scraper nominatim ratio uuid4 st raw_data =
     (case st of (db, s) \<Rightarrow>
        foldl (process_record nominatim ratio uuid4)
          (db, s\<lparr>total_scraped := total_scraped s + length raw_data,
                 total_valid := total_valid s + length raw_data\<rparr>)
          raw_data)"

definition run_all_scrapers ::
  "(string \<Rightarrow> (real \<times> real) option) \<Rightarrow> (string \<Rightarrow> string \<Rightarrow> real) \<Rightarrow> (nat \<Rightarrow> nat)
   \<Rightarrow> service_location list \<Rightarrow> raw_service_data list list \<Rightarrow> service_location list \<times> stats" where
  "run_all_scrapers nominatim ratio uuid4 db scrapers =
     foldl (run_scraper nominatim ratio uuid4)
       (db, \<lparr>total_scraped = 0, total_valid = 0, total_geocoded = 0, total_created = 0,
              total_updated = 0, total_failed = 0\<rparr>)
       scrapers"

text \<open>
  Notions used to state properties of the loop: the coordinates the loop obtains for a
  record, and whether the table holds a row with the record's
  (\<open>external_id\<close>, \<open>data_source\<close>) pair.
\<close>

definition record_coords ::
  "(string \<Rightarrow> (real \<times> real) option) \<Rightarrow> raw_service_data \<Rightarrow> (real \<times> real) option" where
  "record_coords nominatim data =
     geocode_with_fallback nominatim (raw_street_address data) (raw_city data) (raw_state data)
       (raw_zip_code data) (raw_borough data)"


section \<open>Example data\<close>

definition at_clock :: "nat \<Rightarrow> nat \<Rightarrow> nat \<Rightarrow> datetime" where
  "at_clock ord h m =
     \<lparr>ordinal = ord, time_of_day = \<lparr>hour = h, minute = m, second = 0, microsecond = 0\<rparr>\<rparr>"

text \<open>Ordinal 739924 is Wednesday 2026-11-04, day 3 in the stored convention.\<close>

definition noon :: datetime where
  "noon = at_clock 739924 12 0"

definition nine_to_five :: "int \<Rightarrow> operating_hours" where
  "nine_to_five d =
     \<lparr>day_of_week = d,
      open_time = Some \<lparr>hour = 9, minute = 0, second = 0, microsecond = 0\<rparr>,
      close_time = Some \<lparr>hour = 17, minute = 0, second = 0, microsecond = 0\<rparr>,
      is_24_hours = Some False, is_closed = Some False, hours_notes = None\<rparr>"

definition closed_and_24h :: operating_hours where
  "closed_and_24h =
     \<lparr>day_of_week = 3, open_time = None, close_time = None,
      is_24_hours = Some True, is_closed = Some True, hours_notes = None\<rparr>"

definition sample_location :: service_location where
  "sample_location =
     \<lparr>location_id = 1, name = ''Hope Pantry'', description = Some ''Food pantry'',
      organization_name = None, street_address = Some ''12 Main St'', city = Some ''New York'',
      state = Some ''NY'', zip_code = None, borough = Some ''Queens'',
      latitude = Some 0, longitude = Some 0, phone = Some ''555-0100'', website = None,
      wheelchair_accessible = Some True, languages_spoken = Some [''English''],
      data_source = Some ''NYC Open Data'', external_id = Some ''a-17'',
      verified = Some False, deleted_at = None, location_services = [],
      operating_hours = []\<rparr>"

definition deleted_location :: service_location where
  "deleted_location = sample_location\<lparr>deleted_at := Some 1700000000\<rparr>"

definition open_wednesday :: service_location where
  "open_wednesday = sample_location\<lparr>operating_hours := [nine_to_five 3]\<rparr>"

text \<open>Two locations on the equator: a nearer one without hours, a farther one always open.\<close>

definition always_open :: "int \<Rightarrow> operating_hours" where
  "always_open d =
     \<lparr>day_of_week = d, open_time = None, close_time = None,
      is_24_hours = Some True, is_closed = Some False, hours_notes = None\<rparr>"

definition closed_near :: service_location where
  "closed_near = sample_location\<lparr>name := ''Near''\<rparr>"

definition open_far :: service_location where
  "open_far = sample_location\<lparr>location_id := 2, name := ''Far'', longitude := Some 0.001,
     operating_hours := [always_open 3]\<rparr>"

definition equator_responses :: "service_location_response list" where
  "equator_responses =
     [nearby_response noon closed_near 0,
      nearby_response noon open_far (6371000 * radians (1 / 1000))]"

definition sample_raw :: raw_service_data where
  "sample_raw =
     \<lparr>raw_name = ''Hope Pantry'', raw_organization_name = None, raw_description = None,
      raw_street_address = Some ''12 Main St'', raw_city = ''New York'', raw_state = ''NY'',
      raw_zip_code = None, raw_borough = Some ''Queens'', raw_phone = Some ''555-0199'',
      raw_website = None, raw_service_types = [''food''],
      raw_wheelchair_accessible = Some False, raw_languages_spoken = Some [],
      raw_external_id = ''a-17'', raw_data_source = ''NYC Open Data''\<rparr>"

definition other_raw :: raw_service_data where
  "other_raw = sample_raw\<lparr>raw_external_id := ''b-2''\<rparr>"

text \<open>
  Stand-ins for the library's similarity in closed examples: one that is 1 on equal
  strings and 0 otherwise, one that sits exactly on the two thresholds, one just above.
\<close>

definition same_ratio :: "string \<Rightarrow> string \<Rightarrow> real" where
  "same_ratio a b = (if a = b then 1 else 0)"

definition edge_ratio :: "string \<Rightarrow> string \<Rightarrow> real" where
  "edge_ratio a b = (if a = ''hope pantry'' then 0.85 else 0.8)"

definition near_ratio :: "string \<Rightarrow> string \<Rightarrow> real" where
  "near_ratio a b = (if a = ''hope pantry'' then 0.851 else 0.801)"

definition renamed_raw :: raw_service_data where
  "renamed_raw = sample_raw\<lparr>raw_name := ''ZZZ''\<rparr>"

definition bronx_raw :: raw_service_data where
  "bronx_raw = sample_raw\<lparr>raw_name := ''Zeta Shelter'', raw_borough := Some ''Bronx'',
     raw_external_id := ''c-3''\<rparr>"

definition fixed_nominatim :: "string \<Rightarrow> (real \<times> real) option" where
  "fixed_nominatim q = Some (40.7, - 73.9)"

definition zero_stats :: stats where
  "zero_stats = \<lparr>total_scraped = 0, total_valid = 0, total_geocoded = 0, total_created = 0,
     total_updated = 0, total_failed = 0\<rparr>"

text \<open>Rows that the example runs produce.\<close>

definition first_row :: service_location where
  "first_row = new_location 0 sample_raw 40.7 (- 73.9)"

definition second_row :: service_location where
  "second_row = new_location 1 bronx_raw 40.7 (- 73.9)"






section \<open>Auxiliary facts\<close>

lemma first_index_Some:
  "first_index P xs = Some i \<Longrightarrow> i < length xs \<and> P (xs ! i) \<and> (\<forall>j<i. \<not> P (xs ! j))"
proof (induction xs arbitrary: i)
  case Nil
  then show ?case by simp
next
  case (Cons x xs)
  show ?case
  proof (cases "P x")
    case True
    with Cons.prems show ?thesis by simp
  next
    case False
    with Cons.prems obtain k where k: "first_index P xs = Some k" "i = Suc k"
      by auto
    from Cons.IH[OF k(1)] False k(2) show ?thesis
      by (auto simp: nth_Cons split: nat.splits)
  qed
qed

lemma first_index_None: "first_index P xs = None \<longleftrightarrow> (\<forall>x \<in> set xs. \<not> P x)"
  by (induction xs) auto

lemma first_index_exists:
  "x \<in> set xs \<Longrightarrow> P x \<Longrightarrow> \<exists>i. first_index P xs = Some i"
  using first_index_None[of P xs] by (cases "first_index P xs") auto

lemma fuzzy_loop_Some:
  "fuzzy_loop ratio raw_data cs = Some i \<Longrightarrow>
     \<exists>l. (i, l) \<in> set cs \<and> name_similarity ratio raw_data l > 0.85 \<and>
         address_similarity ratio raw_data l > 0.8"
  by (induction ratio raw_data cs rule: fuzzy_loop.induct) (auto split: if_splits)

lemma fuzzy_loop_None:
  "fuzzy_loop ratio raw_data cs = None \<longleftrightarrow>
     (\<forall>(i, l) \<in> set cs. \<not> (name_similarity ratio raw_data l > 0.85 \<and>
         address_similarity ratio raw_data l > 0.8))"
  by (induction ratio raw_data cs rule: fuzzy_loop.induct) auto

lemma fuzzy_match_Some:
  assumes "fuzzy_match ratio db raw_data = Some i"
  shows "i < length db \<and> nonempty (raw_borough raw_data) \<and> borough (db ! i) = raw_borough raw_data \<and>
         deleted_at (db ! i) = None \<and>
         name_similarity ratio raw_data (db ! i) > 0.85 \<and>
         address_similarity ratio raw_data (db ! i) > 0.8"
proof -
  from assms have b: "nonempty (raw_borough raw_data)"
    by (auto simp: fuzzy_match_def split: if_splits)
  with assms obtain l where
    l: "(i, l) \<in> set (filter (\<lambda>(i, l). borough l = raw_borough raw_data \<and> deleted_at l = None) (enumerate 0 db))"
       "name_similarity ratio raw_data l > 0.85" "address_similarity ratio raw_data l > 0.8"
    unfolding fuzzy_match_def Let_def using fuzzy_loop_Some by fastforce
  from l(1) have "i < length db" "db ! i = l" "borough l = raw_borough raw_data" "deleted_at l = None"
    by (auto simp: in_set_enumerate_eq)
  with l b show ?thesis by simp
qed

lemma fuzzy_match_None:
  assumes "\<forall>l \<in> set db. borough l = raw_borough raw_data \<and> deleted_at l = None \<longrightarrow>
             \<not> (name_similarity ratio raw_data l > 0.85 \<and> address_similarity ratio raw_data l > 0.8)"
  shows "fuzzy_match ratio db raw_data = None"
proof (cases "fuzzy_match ratio db raw_data")
  case None
  then show ?thesis .
next
  case (Some i)
  from fuzzy_match_Some[OF Some] assms show ?thesis
    using nth_mem by blast
qed

lemma external_id_match_Some:
  assumes "external_id_match db raw_data = Some i"
  shows "i < length db \<and> raw_external_id raw_data \<noteq> [] \<and> raw_data_source raw_data \<noteq> [] \<and>
         external_id (db ! i) = Some (raw_external_id raw_data) \<and>
         data_source (db ! i) = Some (raw_data_source raw_data) \<and>
         (\<forall>j<i. \<not> (external_id (db ! j) = Some (raw_external_id raw_data) \<and>
                    data_source (db ! j) = Some (raw_data_source raw_data)))"
  using assms first_index_Some[of "\<lambda>l. external_id l = Some (raw_external_id raw_data) \<and>
                            data_source l = Some (raw_data_source raw_data)" db i]
  by (auto simp: external_id_match_def split: if_splits)

lemma find_match_bound: "find_match ratio db raw_data = Some i \<Longrightarrow> i < length db"
  using external_id_match_Some fuzzy_match_Some
  by (fastforce simp: find_match_def split: option.splits)

lemma lower_hope: "lower ''Hope Pantry'' = ''hope pantry''"
  by (simp add: lower_def lower_char_def)

lemma lower_addr: "lower ''12 Main St'' = ''12 main st''"
  by (simp add: lower_def lower_char_def)

lemma open_loop_iff:
  "open_loop t hs \<longleftrightarrow>
     (\<exists>h \<in> set hs. \<not> truthy (is_closed h) \<and>
        (truthy (is_24_hours h) \<or>
         (\<exists>ot ct. open_time h = Some ot \<and> close_time h = Some ct \<and> time_le ot t \<and> time_le t ct)))"
  by (induction hs) (auto split: option.splits)

section \<open>Open-now evaluation\<close>

text \<open>
  C2, as stated: the result is that of \<open>open_now_as_specified\<close>, in which an entry
  marked 24 hours opens the location whatever its closed flag. The code skips an entry
  marked closed before it looks at the 24-hours flag: on a Wednesday at noon, a single
  Wednesday entry marked both closed and 24 hours is open as specified and not open in
  the code.
\<close>

theorem open_now_closed_flag_counterexample:
  "\<not> calculate_is_open_now noon [closed_and_24h] \<and> open_now_as_specified noon [closed_and_24h]"
  by (simp add: calculate_is_open_now_def open_now_as_specified_def current_day_def weekday_def
      noon_def at_clock_def closed_and_24h_def)

text \<open>
  C2, amended: the location is open exactly when some entry of the current day (0 = Sunday)
  is not marked closed and either is marked 24 hours or has both times set with
  \<open>open_time \<le> now \<le> close_time\<close>, both ends included. No entry of the day gives
  false, and several entries of a day are united.
\<close>

theorem calculate_is_open_now_characterised:
  "calculate_is_open_now now hs \<longleftrightarrow>
     (\<exists>h \<in> set hs. day_of_week h = current_day now \<and> \<not> truthy (is_closed h) \<and>
        (truthy (is_24_hours h) \<or>
         (\<exists>ot ct. open_time h = Some ot \<and> close_time h = Some ct \<and>
            time_le ot (time_of_day now) \<and> time_le (time_of_day now) ct)))"
  unfolding calculate_is_open_now_def Let_def open_loop_iff
  by (auto simp: filter_empty_conv)

theorem calculate_is_open_now_characterised_witness:
  "calculate_is_open_now (at_clock 739924 9 0) [nine_to_five 3] \<and>
   calculate_is_open_now (at_clock 739924 17 0) [nine_to_five 3] \<and>
   \<not> calculate_is_open_now (at_clock 739924 8 59) [nine_to_five 3] \<and>
   \<not> calculate_is_open_now (at_clock 739924 17 1) [nine_to_five 3] \<and>
   \<not> calculate_is_open_now (at_clock 739924 12 0) [nine_to_five 2] \<and>
   calculate_is_open_now (at_clock 739924 12 0) [nine_to_five 2, nine_to_five 3]"
  using calculate_is_open_now_characterised[of "at_clock 739924 9 0" "[nine_to_five 3]"]
    calculate_is_open_now_characterised[of "at_clock 739924 17 0" "[nine_to_five 3]"]
    calculate_is_open_now_characterised[of "at_clock 739924 8 59" "[nine_to_five 3]"]
    calculate_is_open_now_characterised[of "at_clock 739924 17 1" "[nine_to_five 3]"]
    calculate_is_open_now_characterised[of "at_clock 739924 12 0" "[nine_to_five 2]"]
    calculate_is_open_now_characterised[of "at_clock 739924 12 0" "[nine_to_five 2, nine_to_five 3]"]
  by (simp add: current_day_def weekday_def at_clock_def nine_to_five_def time_le_def)

section \<open>Matching\<close>

text \<open>
  C3: when the identity tier finds nothing, \<open>find_match\<close> returns a row only if it is
  not soft-deleted, lies in the record's borough, and has name similarity strictly above
  0.85 and address similarity strictly above 0.8; if no such row of the borough clears
  both thresholds the result is \<open>None\<close>. The witness has a candidate at exactly 0.85 and
  0.80, which is not matched, and one at 0.851 and 0.801, which is.
\<close>

theorem fuzzy_match_needs_both_thresholds:
  assumes "external_id_match db raw_data = None"
  shows "(find_match ratio db raw_data = Some i \<longrightarrow>
            i < length db \<and> borough (db ! i) = raw_borough raw_data \<and> deleted_at (db ! i) = None \<and>
            name_similarity ratio raw_data (db ! i) > 0.85 \<and>
            address_similarity ratio raw_data (db ! i) > 0.8) \<and>
         ((\<forall>l \<in> set db. borough l = raw_borough raw_data \<and> deleted_at l = None \<longrightarrow>
              \<not> (name_similarity ratio raw_data l > 0.85 \<and> address_similarity ratio raw_data l > 0.8))
          \<longrightarrow> find_match ratio db raw_data = None)"
  using assms fuzzy_match_Some[of ratio db raw_data i] fuzzy_match_None[of db raw_data ratio]
  by (auto simp: find_match_def)

theorem fuzzy_match_needs_both_thresholds_witness:
  "external_id_match [sample_location] other_raw = None \<and>
   name_similarity edge_ratio other_raw sample_location = 0.85 \<and>
   address_similarity edge_ratio other_raw sample_location = 0.8 \<and>
   find_match edge_ratio [sample_location] other_raw = None \<and>
   find_match near_ratio [sample_location] other_raw = Some 0 \<and>
   name_similarity near_ratio other_raw sample_location > 0.85 \<and>
   address_similarity near_ratio other_raw sample_location > 0.8"
proof -
  have t1: "external_id_match [sample_location] other_raw = None"
    by (simp add: external_id_match_def sample_location_def sample_raw_def other_raw_def)
  have n: "name_similarity edge_ratio other_raw sample_location = 0.85"
    by (simp add: name_similarity_def sample_raw_def sample_location_def lower_hope edge_ratio_def other_raw_def)
  have a: "address_similarity edge_ratio other_raw sample_location = 0.8"
    by (simp add: address_similarity_def sample_raw_def sample_location_def lower_addr edge_ratio_def other_raw_def)
  have none: "find_match edge_ratio [sample_location] other_raw = None"
    using fuzzy_match_needs_both_thresholds[OF t1, of edge_ratio 0] n a by simp
  have f: "fuzzy_match near_ratio [sample_location] other_raw = Some 0"
    by (simp add: fuzzy_match_def enumerate_eq_zip sample_raw_def other_raw_def
        sample_location_def name_similarity_def address_similarity_def lower_hope lower_addr
        near_ratio_def)
  have m: "find_match near_ratio [sample_location] other_raw = Some 0"
    by (simp add: find_match_def t1 f)
  from fuzzy_match_needs_both_thresholds[OF t1, of near_ratio 0] m
  have "name_similarity near_ratio other_raw sample_location > 0.85 \<and>
        address_similarity near_ratio other_raw sample_location > 0.8" by simp
  with t1 n a none m show ?thesis by simp
qed

section \<open>Viewport endpoint\<close>

text \<open>
  C9: a viewport request with \<open>min_lat \<ge> max_lat\<close> or \<open>min_lng \<ge> max_lng\<close> fails
  with HTTP status 400 and does not return an empty list.
\<close>

theorem malformed_bounds_rejected:
  assumes "min_lat \<ge> max_lat \<or> min_lng \<ge> max_lng"
  shows "(\<exists>detail. get_services_in_bounds db now min_lat max_lat min_lng max_lng center_lat center_lng
            service_types exclude_service_types open_now open_today limit =
              Inl (HTTPException 400 detail)) \<and>
         get_services_in_bounds db now min_lat max_lat min_lng max_lng center_lat center_lng
            service_types exclude_service_types open_now open_today limit \<noteq> Inr []"
  using assms by (auto simp: get_services_in_bounds_def)

theorem malformed_bounds_rejected_witness:
  "get_services_in_bounds [sample_location] noon 41 40 (- 75) (- 73) None None None None False False 75 =
     Inl (HTTPException 400 ''min_lat must be less than max_lat'') \<and>
   get_services_in_bounds [sample_location] noon 40 41 (- 73) (- 73) None None None None False False 75 =
     Inl (HTTPException 400 ''min_lng must be less than max_lng'')"
proof -
  have a: "(41::real) \<ge> 40 \<or> (- 75::real) \<ge> - 73" by simp
  have b: "(40::real) \<ge> 41 \<or> (- 73::real) \<ge> - 73" by simp
  from malformed_bounds_rejected[OF a, of "[sample_location]" noon None None None None False False 75]
       malformed_bounds_rejected[OF b, of "[sample_location]" noon None None None None False False 75]
  show ?thesis by (auto simp: get_services_in_bounds_def)
qed

text \<open>
  C8: the endpoint passes the keyword \<open>open_today\<close>, which \<open>find_in_bounds\<close> does not
  take, so a request with well-formed bounds raises \<open>TypeError\<close> whether the flag is
  set or not; no location is filtered by today's entries.
\<close>

theorem open_today_call_raises:
  "get_services_in_bounds [open_wednesday] noon (- 1) 1 (- 1) 1 None None None None False True 75 =
     Inl TypeError \<and>
   get_services_in_bounds [open_wednesday] noon (- 1) 1 (- 1) 1 None None None None False False 75 =
     Inl TypeError"
  by (simp add: get_services_in_bounds_def accepts_keywords_def find_in_bounds_parameters_def)

section \<open>Merging\<close>

lemma update_existing_fields:
  "name (update_existing e r la lo) = raw_name r"
  "latitude (update_existing e r la lo) = Some la"
  "longitude (update_existing e r la lo) = Some lo"
  "description (update_existing e r la lo) = or_str (raw_description r) (description e)"
  "organization_name (update_existing e r la lo) = or_str (raw_organization_name r) (organization_name e)"
  "phone (update_existing e r la lo) = or_str (raw_phone r) (phone e)"
  "website (update_existing e r la lo) = or_str (raw_website r) (website e)"
  "wheelchair_accessible (update_existing e r la lo) =
     or_bool (raw_wheelchair_accessible r) (wheelchair_accessible e)"
  "languages_spoken (update_existing e r la lo) = or_list (raw_languages_spoken r) (languages_spoken e)"
  by (simp_all add: update_existing_def)

lemma update_existing_kept:
  "location_id (update_existing e r la lo) = location_id e"
  "street_address (update_existing e r la lo) = street_address e"
  "borough (update_existing e r la lo) = borough e"
  "data_source (update_existing e r la lo) = data_source e"
  "external_id (update_existing e r la lo) = external_id e"
  "deleted_at (update_existing e r la lo) = deleted_at e"
  by (simp_all add: update_existing_def)

text \<open>
  C7, as stated: every supplied field overwrites the stored one. The record supplies
  \<open>wheelchair_accessible = False\<close> and an empty language list; the stored row keeps
  \<open>True\<close> and its old list, because \<open>raw or existing\<close> takes the stored value for
  every falsy incoming value.
\<close>

theorem update_keeps_old_value_counterexample:
  "find_match same_ratio [sample_location] sample_raw = Some 0 \<and>
   raw_wheelchair_accessible sample_raw = Some False \<and>
   raw_languages_spoken sample_raw = Some [] \<and>
   create_or_update same_ratio (\<lambda>k. k) [sample_location] sample_raw (Some (40.7, - 73.9)) =
     Inr ([sample_location\<lparr>phone := Some ''555-0199'', latitude := Some 40.7,
                            longitude := Some (- 73.9)\<rparr>], 0) \<and>
   wheelchair_accessible (sample_location\<lparr>phone := Some ''555-0199'', latitude := Some 40.7,
                            longitude := Some (- 73.9)\<rparr>) = Some True \<and>
   languages_spoken (sample_location\<lparr>phone := Some ''555-0199'', latitude := Some 40.7,
                            longitude := Some (- 73.9)\<rparr>) = Some [''English'']"
  by (simp add: find_match_def external_id_match_def create_or_update_def update_existing_def
      or_str_def or_bool_def or_list_def sample_location_def sample_raw_def)

text \<open>
  C7, amended: on a match, \<open>create_or_update\<close> updates the matched row in place; name,
  latitude and longitude always take the incoming values; description, organization,
  phone, website, accessibility and languages take the incoming value when it is truthy
  (a non-empty string, \<open>True\<close>, a non-empty list) and keep the stored value when the
  incoming value is \<open>None\<close>.
\<close>

theorem update_overwrites_truthy_fields:
  assumes "find_match ratio db raw_data = Some i"
  shows "\<exists>db'. create_or_update ratio uuid4 db raw_data (Some (lat, lon)) = Inr (db', i) \<and>
           length db' = length db \<and>
           name (db' ! i) = raw_name raw_data \<and>
           latitude (db' ! i) = Some lat \<and>
           longitude (db' ! i) = Some lon \<and>
           (nonempty (raw_description raw_data) \<longrightarrow> description (db' ! i) = raw_description raw_data) \<and>
           (nonempty (raw_organization_name raw_data) \<longrightarrow>
              organization_name (db' ! i) = raw_organization_name raw_data) \<and>
           (nonempty (raw_phone raw_data) \<longrightarrow> phone (db' ! i) = raw_phone raw_data) \<and>
           (nonempty (raw_website raw_data) \<longrightarrow> website (db' ! i) = raw_website raw_data) \<and>
           (raw_wheelchair_accessible raw_data = Some True \<longrightarrow>
              wheelchair_accessible (db' ! i) = Some True) \<and>
           (given (raw_languages_spoken raw_data) \<longrightarrow>
              languages_spoken (db' ! i) = raw_languages_spoken raw_data) \<and>
           (raw_description raw_data = None \<longrightarrow> description (db' ! i) = description (db ! i)) \<and>
           (raw_organization_name raw_data = None \<longrightarrow>
              organization_name (db' ! i) = organization_name (db ! i)) \<and>
           (raw_phone raw_data = None \<longrightarrow> phone (db' ! i) = phone (db ! i)) \<and>
           (raw_website raw_data = None \<longrightarrow> website (db' ! i) = website (db ! i)) \<and>
           (raw_wheelchair_accessible raw_data = None \<longrightarrow>
              wheelchair_accessible (db' ! i) = wheelchair_accessible (db ! i)) \<and>
           (raw_languages_spoken raw_data = None \<longrightarrow>
              languages_spoken (db' ! i) = languages_spoken (db ! i))"
proof -
  define u where "u = update_existing (db ! i) raw_data lat lon"
  define db' where "db' = db[i := u]"
  from find_match_bound[OF assms] have b: "i < length db" .
  have c: "create_or_update ratio uuid4 db raw_data (Some (lat, lon)) = Inr (db', i)"
    by (simp add: create_or_update_def assms db'_def u_def)
  have n: "db' ! i = update_existing (db ! i) raw_data lat lon"
    using b by (simp add: db'_def u_def)
  have l: "length db' = length db"
    by (simp add: db'_def)
  have f: "name (db' ! i) = raw_name raw_data \<and>
           latitude (db' ! i) = Some lat \<and>
           longitude (db' ! i) = Some lon \<and>
           (nonempty (raw_description raw_data) \<longrightarrow> description (db' ! i) = raw_description raw_data) \<and>
           (nonempty (raw_organization_name raw_data) \<longrightarrow>
              organization_name (db' ! i) = raw_organization_name raw_data) \<and>
           (nonempty (raw_phone raw_data) \<longrightarrow> phone (db' ! i) = raw_phone raw_data) \<and>
           (nonempty (raw_website raw_data) \<longrightarrow> website (db' ! i) = raw_website raw_data) \<and>
           (raw_wheelchair_accessible raw_data = Some True \<longrightarrow>
              wheelchair_accessible (db' ! i) = Some True) \<and>
           (given (raw_languages_spoken raw_data) \<longrightarrow>
              languages_spoken (db' ! i) = raw_languages_spoken raw_data) \<and>
           (raw_description raw_data = None \<longrightarrow> description (db' ! i) = description (db ! i)) \<and>
           (raw_organization_name raw_data = None \<longrightarrow>
              organization_name (db' ! i) = organization_name (db ! i)) \<and>
           (raw_phone raw_data = None \<longrightarrow> phone (db' ! i) = phone (db ! i)) \<and>
           (raw_website raw_data = None \<longrightarrow> website (db' ! i) = website (db ! i)) \<and>
           (raw_wheelchair_accessible raw_data = None \<longrightarrow>
              wheelchair_accessible (db' ! i) = wheelchair_accessible (db ! i)) \<and>
           (raw_languages_spoken raw_data = None \<longrightarrow>
              languages_spoken (db' ! i) = languages_spoken (db ! i))"
    unfolding n by (simp add: update_existing_fields or_str_def or_bool_def or_list_def)
  show ?thesis
    apply (rule exI[of _ db'])
    apply (rule conjI, rule c)
    apply (rule conjI, rule l)
    by (rule f)
qed

theorem update_overwrites_truthy_fields_witness:
  "find_match same_ratio [sample_location] sample_raw = Some 0 \<and>
   (\<exists>db'. create_or_update same_ratio (\<lambda>k. k) [sample_location] sample_raw (Some (40.7, - 73.9)) = Inr (db', 0) \<and>
      length db' = 1 \<and> name (db' ! 0) = ''Hope Pantry'' \<and> latitude (db' ! 0) = Some 40.7 \<and>
      longitude (db' ! 0) = Some (- 73.9) \<and> phone (db' ! 0) = Some ''555-0199'' \<and>
      description (db' ! 0) = Some ''Food pantry'')"
proof -
  have m: "find_match same_ratio [sample_location] sample_raw = Some 0"
    by (simp add: find_match_def external_id_match_def sample_location_def sample_raw_def)
  have r: "raw_name sample_raw = ''Hope Pantry''" "nonempty (raw_phone sample_raw)"
    "raw_phone sample_raw = Some ''555-0199''" "raw_description sample_raw = None"
    "description ([sample_location] ! 0) = Some ''Food pantry''"
    by (simp_all add: sample_raw_def sample_location_def)
  from update_overwrites_truthy_fields[OF m, of "\<lambda>k. k" "40.7" "- 73.9"]
  obtain db' where d:
    "create_or_update same_ratio (\<lambda>k. k) [sample_location] sample_raw (Some (40.7, - 73.9)) = Inr (db', 0)"
    "length db' = length [sample_location]" "name (db' ! 0) = raw_name sample_raw"
    "latitude (db' ! 0) = Some 40.7" "longitude (db' ! 0) = Some (- 73.9)"
    "nonempty (raw_phone sample_raw) \<longrightarrow> phone (db' ! 0) = raw_phone sample_raw"
    "raw_description sample_raw = None \<longrightarrow> description (db' ! 0) = description ([sample_location] ! 0)"
    by (elim exE conjE)
  from d r have "create_or_update same_ratio (\<lambda>k. k) [sample_location] sample_raw (Some (40.7, - 73.9)) = Inr (db', 0) \<and>
      length db' = 1 \<and> name (db' ! 0) = ''Hope Pantry'' \<and> latitude (db' ! 0) = Some 40.7 \<and>
      longitude (db' ! 0) = Some (- 73.9) \<and> phone (db' ! 0) = Some ''555-0199'' \<and>
      description (db' ! 0) = Some ''Food pantry''"
    by simp
  with m show ?thesis by blast
qed


section \<open>Identity match and soft deletion\<close>

text \<open>
  C10: for a record with non-empty \<open>external_id\<close> and \<open>data_source\<close>, a stored row
  with the same pair is returned by the identity tier although soft-deleted (here every row
  with that pair is soft-deleted); the fuzzy tier returns only rows that are not
  soft-deleted; and \<open>create_or_update\<close> then adds no row but writes the incoming
  name and coordinates, and every truthy incoming descriptive field, into that soft-deleted
  row, which keeps its deletion mark and its identity pair while every other row is
  untouched.
\<close>

theorem identity_match_ignores_soft_delete:
  assumes "raw_external_id raw_data \<noteq> []" and "raw_data_source raw_data \<noteq> []"
    and "l \<in> set db"
    and "external_id l = Some (raw_external_id raw_data)"
    and "data_source l = Some (raw_data_source raw_data)"
    and "\<forall>m \<in> set db. external_id m = Some (raw_external_id raw_data) \<and>
            data_source m = Some (raw_data_source raw_data) \<longrightarrow> deleted_at m \<noteq> None"
  shows "\<exists>i < length db. \<exists>db'.
           find_match ratio db raw_data = Some i \<and>
           external_id (db ! i) = Some (raw_external_id raw_data) \<and>
           data_source (db ! i) = Some (raw_data_source raw_data) \<and>
           deleted_at (db ! i) \<noteq> None \<and>
           (\<forall>j. fuzzy_match ratio db raw_data = Some j \<longrightarrow> j \<noteq> i \<and> deleted_at (db ! j) = None) \<and>
           create_or_update ratio uuid4 db raw_data (Some (lat, lon)) = Inr (db', i) \<and>
           db' = db[i := update_existing (db ! i) raw_data lat lon] \<and>
           length db' = length db \<and>
           (\<forall>j < length db. j \<noteq> i \<longrightarrow> db' ! j = db ! j) \<and>
           name (db' ! i) = raw_name raw_data \<and>
           latitude (db' ! i) = Some lat \<and>
           longitude (db' ! i) = Some lon \<and>
           (nonempty (raw_description raw_data) \<longrightarrow> description (db' ! i) = raw_description raw_data) \<and>
           (nonempty (raw_organization_name raw_data) \<longrightarrow>
              organization_name (db' ! i) = raw_organization_name raw_data) \<and>
           (nonempty (raw_phone raw_data) \<longrightarrow> phone (db' ! i) = raw_phone raw_data) \<and>
           (nonempty (raw_website raw_data) \<longrightarrow> website (db' ! i) = raw_website raw_data) \<and>
           (raw_wheelchair_accessible raw_data = Some True \<longrightarrow>
              wheelchair_accessible (db' ! i) = Some True) \<and>
           (given (raw_languages_spoken raw_data) \<longrightarrow>
              languages_spoken (db' ! i) = raw_languages_spoken raw_data) \<and>
           deleted_at (db' ! i) = deleted_at (db ! i) \<and>
           external_id (db' ! i) = external_id (db ! i) \<and>
           data_source (db' ! i) = data_source (db ! i)"
proof -
  let ?P = "\<lambda>l. external_id l = Some (raw_external_id raw_data) \<and>
                 data_source l = Some (raw_data_source raw_data)"
  from first_index_exists[of l db ?P] assms(3-5)
  obtain i where i: "first_index ?P db = Some i" by blast
  with assms(1,2) have e: "external_id_match db raw_data = Some i"
    by (simp add: external_id_match_def)
  from external_id_match_Some[OF e] have b: "i < length db" and k: "?P (db ! i)" by simp_all
  from b k assms(6) have d: "deleted_at (db ! i) \<noteq> None"
    using nth_mem by blast
  have f: "\<forall>j. fuzzy_match ratio db raw_data = Some j \<longrightarrow> j \<noteq> i \<and> deleted_at (db ! j) = None"
  proof (intro allI impI)
    fix j
    assume a: "fuzzy_match ratio db raw_data = Some j"
    from fuzzy_match_Some[OF a] have dj: "deleted_at (db ! j) = None" by simp
    with d show "j \<noteq> i \<and> deleted_at (db ! j) = None" by auto
  qed
  have m: "find_match ratio db raw_data = Some i"
    by (simp add: find_match_def e)
  define db' where "db' = db[i := update_existing (db ! i) raw_data lat lon]"
  have c: "create_or_update ratio uuid4 db raw_data (Some (lat, lon)) = Inr (db', i)"
    by (simp add: create_or_update_def m db'_def)
  have n: "db' ! i = update_existing (db ! i) raw_data lat lon"
    using b by (simp add: db'_def)
  have len: "length db' = length db" by (simp add: db'_def)
  have others: "\<forall>j < length db. j \<noteq> i \<longrightarrow> db' ! j = db ! j"
    by (simp add: db'_def)
  have fields:
    "name (db' ! i) = raw_name raw_data \<and>
     latitude (db' ! i) = Some lat \<and>
     longitude (db' ! i) = Some lon \<and>
     (nonempty (raw_description raw_data) \<longrightarrow> description (db' ! i) = raw_description raw_data) \<and>
     (nonempty (raw_organization_name raw_data) \<longrightarrow>
        organization_name (db' ! i) = raw_organization_name raw_data) \<and>
     (nonempty (raw_phone raw_data) \<longrightarrow> phone (db' ! i) = raw_phone raw_data) \<and>
     (nonempty (raw_website raw_data) \<longrightarrow> website (db' ! i) = raw_website raw_data) \<and>
     (raw_wheelchair_accessible raw_data = Some True \<longrightarrow>
        wheelchair_accessible (db' ! i) = Some True) \<and>
     (given (raw_languages_spoken raw_data) \<longrightarrow>
        languages_spoken (db' ! i) = raw_languages_spoken raw_data) \<and>
     deleted_at (db' ! i) = deleted_at (db ! i) \<and>
     external_id (db' ! i) = external_id (db ! i) \<and>
     data_source (db' ! i) = data_source (db ! i)"
    unfolding n
    by (simp add: update_existing_fields update_existing_kept or_str_def or_bool_def or_list_def)
  show ?thesis
    apply (rule exI[of _ i], rule conjI, rule b)
    apply (rule exI[of _ db'])
    apply (rule conjI, rule m)
    apply (rule conjI, rule conjunct1[OF k])
    apply (rule conjI, rule conjunct2[OF k])
    apply (rule conjI, rule d)
    apply (rule conjI, rule f)
    apply (rule conjI, rule c)
    apply (rule conjI, rule db'_def)
    apply (rule conjI, rule len)
    apply (rule conjI, rule others)
    by (rule fields)
qed

theorem identity_match_ignores_soft_delete_witness:
  "deleted_at deleted_location = Some 1700000000 \<and>
   find_match same_ratio [deleted_location] sample_raw = Some 0 \<and>
   fuzzy_match same_ratio [deleted_location] sample_raw = None \<and>
   (\<exists>db'. create_or_update same_ratio (\<lambda>k. k) [deleted_location] sample_raw (Some (40.7, - 73.9)) =
            Inr (db', 0) \<and>
      length db' = 1 \<and>
      name (db' ! 0) = ''Hope Pantry'' \<and>
      latitude (db' ! 0) = Some 40.7 \<and>
      longitude (db' ! 0) = Some (- 73.9) \<and>
      phone (db' ! 0) = Some ''555-0199'' \<and>
      deleted_at (db' ! 0) = Some 1700000000)"
proof -
  have h: "raw_external_id sample_raw \<noteq> []" "raw_data_source sample_raw \<noteq> []"
    "deleted_location \<in> set [deleted_location]"
    "external_id deleted_location = Some (raw_external_id sample_raw)"
    "data_source deleted_location = Some (raw_data_source sample_raw)"
    "\<forall>m \<in> set [deleted_location]. external_id m = Some (raw_external_id sample_raw) \<and>
            data_source m = Some (raw_data_source sample_raw) \<longrightarrow> deleted_at m \<noteq> None"
    by (simp_all add: sample_raw_def deleted_location_def sample_location_def)
  have f: "fuzzy_match same_ratio [deleted_location] sample_raw = None"
    by (simp add: fuzzy_match_def enumerate_eq_zip deleted_location_def sample_location_def
        sample_raw_def)
  have d: "deleted_at deleted_location = Some 1700000000"
    by (simp add: deleted_location_def)
  have r: "raw_name sample_raw = ''Hope Pantry''" "nonempty (raw_phone sample_raw)"
    "raw_phone sample_raw = Some ''555-0199''"
    by (simp_all add: sample_raw_def)
  from identity_match_ignores_soft_delete[OF h, of same_ratio "\<lambda>k. k" "40.7" "- 73.9"]
  obtain i db' where w:
    "i < length [deleted_location]"
    "find_match same_ratio [deleted_location] sample_raw = Some i"
    "create_or_update same_ratio (\<lambda>k. k) [deleted_location] sample_raw (Some (40.7, - 73.9)) = Inr (db', i)"
    "length db' = length [deleted_location]"
    "name (db' ! i) = raw_name sample_raw"
    "latitude (db' ! i) = Some 40.7"
    "longitude (db' ! i) = Some (- 73.9)"
    "nonempty (raw_phone sample_raw) \<longrightarrow> phone (db' ! i) = raw_phone sample_raw"
    "deleted_at (db' ! i) = deleted_at ([deleted_location] ! i)"
    by (elim exE conjE)
  from w(1) have i0: "i = 0" by simp
  from w r d have
    "create_or_update same_ratio (\<lambda>k. k) [deleted_location] sample_raw (Some (40.7, - 73.9)) =
            Inr (db', 0) \<and>
      length db' = 1 \<and>
      name (db' ! 0) = ''Hope Pantry'' \<and>
      latitude (db' ! 0) = Some 40.7 \<and>
      longitude (db' ! 0) = Some (- 73.9) \<and>
      phone (db' ! 0) = Some ''555-0199'' \<and>
      deleted_at (db' ! 0) = Some 1700000000"
    unfolding i0 by simp
  then have ex: "\<exists>db'. create_or_update same_ratio (\<lambda>k. k) [deleted_location] sample_raw (Some (40.7, - 73.9)) =
            Inr (db', 0) \<and>
      length db' = 1 \<and>
      name (db' ! 0) = ''Hope Pantry'' \<and>
      latitude (db' ! 0) = Some 40.7 \<and>
      longitude (db' ! 0) = Some (- 73.9) \<and>
      phone (db' ! 0) = Some ''555-0199'' \<and>
      deleted_at (db' ! 0) = Some 1700000000" by (rule exI)
  from w(2) have m: "find_match same_ratio [deleted_location] sample_raw = Some 0"
    unfolding i0 .
  from d m f ex show ?thesis by (intro conjI)
qed

section \<open>Nearby query\<close>

lemma locations_with_distance_sound:
  "locations_with_distance lat lon radius_km ls = Inr lwd \<Longrightarrow> (l, d) \<in> set lwd \<Longrightarrow>
     l \<in> set ls \<and> d \<le> radius_km * 1000 \<and>
     (\<exists>la lo. latitude l = Some la \<and> longitude l = Some lo \<and>
        haversine_distance lat lon la lo = Inr d)"
proof (induction ls arbitrary: lwd)
  case Nil
  then show ?case by simp
next
  case (Cons x xs)
  then show ?case
    by (fastforce split: option.splits sum.splits if_splits)
qed

lemma build_responses_eq:
  "build_responses now open_now ps = Inr rs \<Longrightarrow>
     rs = map (\<lambda>p. nearby_response now (fst p) (snd p))
            (filter (\<lambda>p. \<not> (open_now \<and> \<not> calculate_is_open_now now (operating_hours (fst p)))) ps)"
proof (induction ps arbitrary: rs)
  case Nil
  then show ?case by simp
next
  case (Cons p ps)
  obtain l d where p: "p = (l, d)" by (cases p)
  from Cons.prems Cons.IH show ?case
    unfolding p
    by (auto simp: Let_def split: if_splits sum.splits)
qed

lemma length_slice_to: "0 \<le> n \<Longrightarrow> int (length (slice_to n xs)) \<le> n"
  by (simp add: slice_to_def)

lemma slice_to_take: "0 \<le> n \<Longrightarrow> slice_to n xs = take (nat n) xs"
  by (simp add: slice_to_def)

lemma sorted_map_take: "sorted (map f xs) \<Longrightarrow> sorted (map f (take n xs))"
  by (simp add: take_map[symmetric] sorted_wrt_take)

lemma find_nearby_Inr:
  assumes "find_nearby db now lat lon radius_km service_types open_now limit = Inr responses"
  obtains box lwd where
    "bounding_box lat lon radius_km = Inr box"
    "locations_with_distance lat lon radius_km (nearby_query box service_types db) = Inr lwd"
    "responses = map (\<lambda>p. nearby_response now (fst p) (snd p))
       (filter (\<lambda>p. \<not> (open_now \<and> \<not> calculate_is_open_now now (operating_hours (fst p))))
          (slice_to (min limit 500) (sort_key snd lwd)))"
proof -
  from assms obtain box where box: "bounding_box lat lon radius_km = Inr box"
    by (cases "bounding_box lat lon radius_km") (simp_all add: find_nearby_def)
  from assms box obtain lwd where
    lwd: "locations_with_distance lat lon radius_km (nearby_query box service_types db) = Inr lwd"
    by (cases "locations_with_distance lat lon radius_km (nearby_query box service_types db)")
       (simp_all add: find_nearby_def)
  from assms box lwd have
    "build_responses now open_now (slice_to (min limit 500) (sort_key snd lwd)) = Inr responses"
    by (simp add: find_nearby_def)
  from build_responses_eq[OF this] box lwd that show thesis by blast
qed

lemma sorted_take_closed:
  assumes "sorted (map f xs)" and "q \<in> set (take n xs)" and "p \<in> set xs" and "f p < f q"
  shows "p \<in> set (take n xs)"
proof -
  from assms(2) obtain i where i: "i < length xs" "i < n" "xs ! i = q"
    by (auto simp: in_set_conv_nth)
  from assms(3) obtain j where j: "j < length xs" "xs ! j = p"
    by (auto simp: in_set_conv_nth)
  have "j < n"
  proof (rule ccontr)
    assume "\<not> j < n"
    with i(2) have "i \<le> j" by simp
    with assms(1) j(1) have "map f xs ! i \<le> map f xs ! j"
      by (intro sorted_nth_mono) simp_all
    with i j assms(4) show False by simp
  qed
  with j show ?thesis by (auto simp: in_set_conv_nth)
qed

text \<open>
  Along the equator the distance is the radius times the difference of the longitudes.
\<close>

lemma haversine_equator:
  assumes "\<bar>lon2 - lon1\<bar> \<le> 180"
  shows "haversine_distance 0 lon1 0 lon2 = Inr (6371000 * radians \<bar>lon2 - lon1\<bar>)"
proof -
  define x where "x = radians (lon2 - lon1) / 2"
  have xa: "\<bar>x\<bar> = \<bar>lon2 - lon1\<bar> * (pi / 360)"
    by (simp add: x_def radians_def abs_mult)
  have "\<bar>lon2 - lon1\<bar> * (pi / 360) \<le> 180 * (pi / 360)"
    using assms by (intro mult_right_mono) simp_all
  then have xb: "\<bar>x\<bar> \<le> pi / 2"
    unfolding xa by simp
  have a: "haversine_a 0 lon1 0 lon2 = (sin x)\<^sup>2"
    by (simp add: haversine_a_def radians_def x_def)
  have a1: "1 - (sin x)\<^sup>2 = (cos x)\<^sup>2"
    using sin_cos_squared_add[of x] by (simp add: algebra_simps)
  have c0: "0 \<le> cos x"
    using xb by (intro cos_ge_zero) (auto simp: abs_le_iff)
  have s: "sqrt ((sin x)\<^sup>2) = sin \<bar>x\<bar>"
  proof (cases "0 \<le> x")
    case True
    with xb have "0 \<le> sin x" by (intro sin_ge_zero) (auto simp: abs_le_iff intro: order_trans[OF _ pi_half_le_two])
    with True show ?thesis by simp
  next
    case False
    with xb have "sin x \<le> 0"
      using sin_ge_zero[of "- x"] by (auto simp: abs_le_iff)
    with False show ?thesis by simp
  qed
  have at: "atan2 (sin \<bar>x\<bar>) (cos x) = \<bar>x\<bar>"
  proof (cases "cos x = 0")
    case True
    have "\<not> \<bar>x\<bar> < pi / 2"
    proof
      assume "\<bar>x\<bar> < pi / 2"
      then have "- (pi / 2) < x" "x < pi / 2" by (auto simp: abs_less_iff)
      from cos_gt_zero_pi[OF this] True show False by simp
    qed
    with xb have e: "\<bar>x\<bar> = pi / 2" by simp
    have "sin \<bar>x\<bar> = 1" unfolding e by (rule sin_pi_half)
    with True show ?thesis unfolding e by (simp add: atan2_def)
  next
    case False
    with c0 have cp: "0 < cos x" by simp
    have lt: "\<bar>x\<bar> < pi / 2"
    proof (rule ccontr)
      assume "\<not> \<bar>x\<bar> < pi / 2"
      with xb have e: "\<bar>x\<bar> = pi / 2" by simp
      have "cos x = cos \<bar>x\<bar>" by simp
      also have "\<dots> = 0" unfolding e by (rule cos_pi_half)
      finally show False using False by simp
    qed
    have "sin \<bar>x\<bar> / cos x = tan \<bar>x\<bar>"
      by (simp add: tan_def)
    then have "arctan (sin \<bar>x\<bar> / cos x) = \<bar>x\<bar>"
      using lt by (simp add: arctan_tan)
    with cp show ?thesis by (simp add: atan2_def)
  qed
  have "haversine_distance 0 lon1 0 lon2 = Inr (6371000 * (2 * \<bar>x\<bar>))"
    unfolding haversine_distance_def Let_def a a1
    using at s c0 by (simp add: real_sqrt_abs2 abs_of_nonneg)
  moreover have "2 * \<bar>x\<bar> = radians \<bar>lon2 - lon1\<bar>"
    unfolding xa by (simp add: radians_def)
  ultimately show ?thesis by simp
qed

lemma far_distance_bounds: "0 \<le> 6371000 * radians (1 / 1000)" "6371000 * radians (1 / 1000) \<le> 1000"
proof -
  show "0 \<le> 6371000 * radians (1 / 1000)" by (simp add: radians_def)
  have "6371000 * radians (1 / 1000) = pi * (6371 / 180)" by (simp add: radians_def)
  also have "\<dots> \<le> 4 * (6371 / 180)" using pi_less_4 by (intro mult_right_mono) simp_all
  also have "\<dots> \<le> 1000" by simp
  finally show "6371000 * radians (1 / 1000) \<le> 1000" .
qed

lemma equator_box: "bounding_box 0 0 1 = Inr (- (1 / 111), 1 / 111, - (1 / 111), 1 / 111)"
  by (simp add: bounding_box_def radians_def Let_def)

lemma equator_query:
  "nearby_query (- (1 / 111), 1 / 111, - (1 / 111), 1 / 111) None [closed_near, open_far] =
     [closed_near, open_far]"
  by (simp add: nearby_query_def in_rectangle_def closed_near_def open_far_def sample_location_def)

lemma equator_distances:
  "locations_with_distance 0 0 1 [closed_near, open_far] =
     Inr [(closed_near, 0), (open_far, 6371000 * radians (1 / 1000))]"
proof -
  have c: "latitude closed_near = Some 0" "longitude closed_near = Some 0"
    "latitude open_far = Some 0" "longitude open_far = Some (1 / 1000)"
    by (simp_all add: closed_near_def open_far_def sample_location_def)
  have h0: "haversine_distance 0 0 0 0 = Inr 0"
    using haversine_equator[of 0 0] by (simp add: radians_def)
  have h1: "haversine_distance 0 0 0 (1 / 1000) = Inr (6371000 * radians (1 / 1000))"
    using haversine_equator[of "1 / 1000" 0] by simp
  show ?thesis
    using far_distance_bounds(2) by (simp add: c h0 h1)
qed

lemma equator_sorted:
  "sort_key snd [(closed_near, 0), (open_far, 6371000 * radians (1 / 1000))] =
     [(closed_near, 0), (open_far, 6371000 * radians (1 / 1000))]"
  using far_distance_bounds(1) by simp

lemma equator_open:
  "\<not> calculate_is_open_now noon (operating_hours closed_near)"
  "calculate_is_open_now noon (operating_hours open_far)"
  by (simp_all add: calculate_is_open_now_def closed_near_def open_far_def sample_location_def
      always_open_def noon_def at_clock_def current_day_def weekday_def)

lemma equator_days: "day_names_ok closed_near" "day_names_ok open_far"
  by (simp_all add: day_names_ok_def closed_near_def open_far_def sample_location_def always_open_def)

lemma find_nearby_equator:
  "find_nearby [closed_near, open_far] noon 0 0 1 None open_now limit =
     build_responses noon open_now
       (slice_to (min limit 500) [(closed_near, 0), (open_far, 6371000 * radians (1 / 1000))])"
  by (simp only: find_nearby_def Let_def equator_box sum.case equator_query equator_distances
      equator_sorted)

lemma find_nearby_open_example:
  "find_nearby [closed_near, open_far] noon 0 0 1 None True 1 = Inr []"
  unfolding find_nearby_equator
  by (simp add: slice_to_def equator_open equator_days)

lemma closest_open_example:
  "closest_open_as_specified [closed_near, open_far] noon 0 0 1 None 1 = Inr [open_far]"
proof -
  have "closest_open_as_specified [closed_near, open_far] noon 0 0 1 None 1 =
      Inr (map fst (take (nat (min 1 500))
                      (filter (\<lambda>(l, d). calculate_is_open_now noon (operating_hours l))
                         [(closed_near, 0), (open_far, 6371000 * radians (1 / 1000))])))"
    by (simp only: closest_open_as_specified_def equator_box sum.case equator_query
        equator_distances equator_sorted)
  then show ?thesis by (simp add: equator_open)
qed

text \<open>
  C5: for a limit that is not negative, a successful \<open>find_nearby\<close> returns at most
  \<open>min limit 500\<close> responses; the haversine distances \<open>ds\<close> of the returned locations
  from the centre are each at most \<open>radius_km * 1000\<close> metres and are in non-decreasing
  order along the list.
\<close>

theorem find_nearby_limited_within_radius_sorted:
  assumes "find_nearby db now lat lon radius_km service_types open_now limit = Inr responses"
    and "0 \<le> limit"
  shows "int (length responses) \<le> min limit 500 \<and>
         (\<exists>ds. length ds = length responses \<and> sorted ds \<and>
            (\<forall>k < length responses.
               ds ! k \<le> radius_km * 1000 \<and>
               (\<exists>la lo. latitude (response_location (responses ! k)) = Some la \<and>
                  longitude (response_location (responses ! k)) = Some lo \<and>
                  haversine_distance lat lon la lo = Inr (ds ! k))))"
proof -
  from find_nearby_Inr[OF assms(1)] obtain box lwd where
    box: "bounding_box lat lon radius_km = Inr box" and
    lwd: "locations_with_distance lat lon radius_km (nearby_query box service_types db) = Inr lwd" and
    rs: "responses = map (\<lambda>p. nearby_response now (fst p) (snd p))
       (filter (\<lambda>p. \<not> (open_now \<and> \<not> calculate_is_open_now now (operating_hours (fst p))))
          (slice_to (min limit 500) (sort_key snd lwd)))"
    by blast
  define ps where "ps = slice_to (min limit 500) (sort_key snd lwd)"
  define kept where
    "kept = filter (\<lambda>p. \<not> (open_now \<and> \<not> calculate_is_open_now now (operating_hours (fst p)))) ps"
  have rs': "responses = map (\<lambda>p. nearby_response now (fst p) (snd p)) kept"
    using rs by (simp add: kept_def ps_def)
  from assms(2) have lim: "0 \<le> min limit 500" by simp
  have "int (length ps) \<le> min limit 500"
    unfolding ps_def by (rule length_slice_to[OF lim])
  moreover have "length kept \<le> length ps"
    unfolding kept_def by (rule length_filter_le)
  ultimately have len: "int (length responses) \<le> min limit 500"
    using rs' by simp
  have "sorted (map snd ps)"
    unfolding ps_def slice_to_take[OF lim] by (rule sorted_map_take) simp
  then have srt: "sorted (map snd kept)"
    unfolding kept_def by (rule sorted_filter)
  have sub: "set kept \<subseteq> set lwd"
    unfolding kept_def ps_def slice_to_take[OF lim] using set_take_subset[of _ "sort_key snd lwd"]
    by auto
  have each: "map snd kept ! k \<le> radius_km * 1000 \<and>
               (\<exists>la lo. latitude (response_location (responses ! k)) = Some la \<and>
                  longitude (response_location (responses ! k)) = Some lo \<and>
                  haversine_distance lat lon la lo = Inr (map snd kept ! k))"
    if k: "k < length responses" for k
  proof -
    from k rs' have k': "k < length kept" by simp
    then have "kept ! k \<in> set lwd" using sub nth_mem by blast
    then have "(fst (kept ! k), snd (kept ! k)) \<in> set lwd" by simp
    from locations_with_distance_sound[OF lwd this] k' show ?thesis
      by (simp add: rs' nearby_response_def)
  qed
  have "length (map snd kept) = length responses" using rs' by simp
  with srt each have
    "\<exists>ds. length ds = length responses \<and> sorted ds \<and>
            (\<forall>k < length responses.
               ds ! k \<le> radius_km * 1000 \<and>
               (\<exists>la lo. latitude (response_location (responses ! k)) = Some la \<and>
                  longitude (response_location (responses ! k)) = Some lo \<and>
                  haversine_distance lat lon la lo = Inr (ds ! k)))"
    by blast
  with len show ?thesis by blast
qed

theorem find_nearby_limited_within_radius_sorted_witness:
  "find_nearby [closed_near, open_far] noon 0 0 1 None False 10 = Inr equator_responses \<and>
   length equator_responses = 2 \<and>
   int (length equator_responses) \<le> min 10 500 \<and>
   (\<exists>ds. length ds = length equator_responses \<and> sorted ds \<and>
      (\<forall>k < length equator_responses. ds ! k \<le> 1 * 1000 \<and>
         (\<exists>la lo. latitude (response_location (equator_responses ! k)) = Some la \<and>
            longitude (response_location (equator_responses ! k)) = Some lo \<and>
            haversine_distance 0 0 la lo = Inr (ds ! k))))"
proof -
  have e: "find_nearby [closed_near, open_far] noon 0 0 1 None False 10 = Inr equator_responses"
    unfolding find_nearby_equator equator_responses_def
    by (simp add: slice_to_def equator_open equator_days)
  have l: "(0::int) \<le> 10" by simp
  have n: "length equator_responses = 2" by (simp add: equator_responses_def)
  from find_nearby_limited_within_radius_sorted[OF e l] e n show ?thesis by blast
qed

text \<open>
  C6, as stated: the result is the closest open candidates, up to the clamped limit. With
  limit 1, a nearer location without hours and a farther one that is always open, both
  within the radius, the code returns nothing, where the specified result is the open one:
  the list is cut to the limit before the open-now filter runs.
\<close>

theorem open_now_after_cut_counterexample:
  "find_nearby [closed_near, open_far] noon 0 0 1 None True 1 = Inr [] \<and>
   closest_open_as_specified [closed_near, open_far] noon 0 0 1 None 1 = Inr [open_far]"
  using find_nearby_open_example closest_open_example by simp

text \<open>
  C6, amended: with \<open>open_now\<close> set (and a limit that is not negative) the result is
  the open members of the \<open>min limit 500\<close> closest candidates within the radius, in
  closest-first order; every open candidate within the radius that is strictly closer than
  some member of that cut is returned.
\<close>

theorem find_nearby_open_now_filters_the_closest:
  assumes "find_nearby db now lat lon radius_km service_types True limit = Inr responses"
    and "0 \<le> limit"
  shows "\<exists>box lwd.
           bounding_box lat lon radius_km = Inr box \<and>
           locations_with_distance lat lon radius_km (nearby_query box service_types db) = Inr lwd \<and>
           responses =
             map (\<lambda>p. nearby_response now (fst p) (snd p))
               (filter (\<lambda>p. calculate_is_open_now now (operating_hours (fst p)))
                  (take (nat (min limit 500)) (sort_key snd lwd))) \<and>
           (\<forall>p \<in> set lwd. \<forall>q \<in> set (take (nat (min limit 500)) (sort_key snd lwd)).
              calculate_is_open_now now (operating_hours (fst p)) \<and> snd p < snd q \<longrightarrow>
              nearby_response now (fst p) (snd p) \<in> set responses)"
proof -
  from find_nearby_Inr[OF assms(1)] obtain box lwd where
    box: "bounding_box lat lon radius_km = Inr box" and
    lwd: "locations_with_distance lat lon radius_km (nearby_query box service_types db) = Inr lwd" and
    rs: "responses = map (\<lambda>p. nearby_response now (fst p) (snd p))
       (filter (\<lambda>p. \<not> (True \<and> \<not> calculate_is_open_now now (operating_hours (fst p))))
          (slice_to (min limit 500) (sort_key snd lwd)))"
    by blast
  from assms(2) have lim: "0 \<le> min limit 500" by simp
  define cut where "cut = take (nat (min limit 500)) (sort_key snd lwd)"
  have rs': "responses = map (\<lambda>p. nearby_response now (fst p) (snd p))
               (filter (\<lambda>p. calculate_is_open_now now (operating_hours (fst p))) cut)"
    using rs unfolding slice_to_take[OF lim] cut_def by simp
  have closed: "nearby_response now (fst p) (snd p) \<in> set responses"
    if p: "p \<in> set lwd" and q: "q \<in> set cut"
      and o: "calculate_is_open_now now (operating_hours (fst p))" and lt: "snd p < snd q" for p q
  proof -
    have "sorted (map snd (sort_key snd lwd))" by simp
    moreover from p have "p \<in> set (sort_key snd lwd)" by simp
    ultimately have "p \<in> set cut"
      using q lt unfolding cut_def by (rule_tac sorted_take_closed[of snd _ q]) 
    with o show ?thesis unfolding rs' by simp
  qed
  from box lwd rs' closed show ?thesis
    unfolding cut_def by blast
qed

theorem find_nearby_open_now_filters_the_closest_witness:
  "find_nearby [closed_near, open_far] noon 0 0 1 None True 10 =
     Inr [nearby_response noon open_far (6371000 * radians (1 / 1000))] \<and>
   (\<exists>box lwd.
      bounding_box 0 0 1 = Inr box \<and>
      locations_with_distance 0 0 1 (nearby_query box None [closed_near, open_far]) = Inr lwd \<and>
      [nearby_response noon open_far (6371000 * radians (1 / 1000))] =
        map (\<lambda>p. nearby_response noon (fst p) (snd p))
          (filter (\<lambda>p. calculate_is_open_now noon (operating_hours (fst p)))
             (take (nat (min 10 500)) (sort_key snd lwd))) \<and>
      (\<forall>p \<in> set lwd. \<forall>q \<in> set (take (nat (min 10 500)) (sort_key snd lwd)).
         calculate_is_open_now noon (operating_hours (fst p)) \<and> snd p < snd q \<longrightarrow>
         nearby_response noon (fst p) (snd p) \<in>
           set [nearby_response noon open_far (6371000 * radians (1 / 1000))]))"
proof -
  have e: "find_nearby [closed_near, open_far] noon 0 0 1 None True 10 =
     Inr [nearby_response noon open_far (6371000 * radians (1 / 1000))]"
    unfolding find_nearby_equator by (simp add: slice_to_def equator_open equator_days)
  have l: "(0::int) \<le> 10" by simp
  show ?thesis
    by (rule conjI[OF e find_nearby_open_now_filters_the_closest[OF e l]])
qed

section \<open>Ingestion runs\<close>







lemma new_location_fields:
  "external_id (new_location n r la lo) = Some (raw_external_id r)"
  "data_source (new_location n r la lo) = Some (raw_data_source r)"
  "borough (new_location n r la lo) = raw_borough r"
  "deleted_at (new_location n r la lo) = None"
  "name (new_location n r la lo) = raw_name r"
  "street_address (new_location n r la lo) = raw_street_address r"
  by (simp_all add: new_location_def)

lemma process_record_created:
  assumes "record_coords nominatim r = Some (la, lo)" and "find_match ratio db r = None"
  shows "process_record nominatim ratio uuid4 (db, s) r =
           (db @ [new_location (uuid4 (length db)) r la lo],
            s\<lparr>total_geocoded := total_geocoded s + 1, total_created := total_created s + 1\<rparr>)"
  using assms
  by (simp add: process_record_def record_coords_def create_or_update_def)


lemma example_coords:
  "record_coords fixed_nominatim sample_raw = Some (40.7, - 73.9)"
  "record_coords fixed_nominatim bronx_raw = Some (40.7, - 73.9)"
  "record_coords fixed_nominatim other_raw = Some (40.7, - 73.9)"
  "record_coords fixed_nominatim renamed_raw = Some (40.7, - 73.9)"
  by (simp_all add: record_coords_def geocode_with_fallback_def geocode_def fixed_nominatim_def
      sample_raw_def bronx_raw_def other_raw_def renamed_raw_def)

lemma raw_example_fields:
  "raw_external_id sample_raw = ''a-17''" "raw_data_source sample_raw = ''NYC Open Data''"
  "raw_borough sample_raw = Some ''Queens''" "raw_name sample_raw = ''Hope Pantry''"
  "raw_street_address sample_raw = Some ''12 Main St''"
  "raw_external_id bronx_raw = ''c-3''" "raw_data_source bronx_raw = ''NYC Open Data''"
  "raw_borough bronx_raw = Some ''Bronx''" "raw_name bronx_raw = ''Zeta Shelter''"
  "raw_street_address bronx_raw = Some ''12 Main St''"
  "raw_external_id other_raw = ''b-2''" "raw_data_source other_raw = ''NYC Open Data''"
  "raw_borough other_raw = Some ''Queens''" "raw_name other_raw = ''Hope Pantry''"
  "raw_street_address other_raw = Some ''12 Main St''"
  "raw_external_id renamed_raw = ''a-17''" "raw_data_source renamed_raw = ''NYC Open Data''"
  "raw_borough renamed_raw = Some ''Queens''" "raw_name renamed_raw = ''ZZZ''"
  "raw_street_address renamed_raw = Some ''12 Main St''"
  by (simp_all add: sample_raw_def bronx_raw_def other_raw_def renamed_raw_def)

lemma first_run_example:
  "run_scraper fixed_nominatim same_ratio (\<lambda>k. k) ([], zero_stats) [sample_raw, bronx_raw] =
     ([first_row, second_row],
      zero_stats\<lparr>total_scraped := 2, total_valid := 2, total_geocoded := 2, total_created := 2\<rparr>)"
proof -
  have m1: "find_match same_ratio [] sample_raw = None"
    by (simp add: find_match_def external_id_match_def fuzzy_match_def)
  have m2: "find_match same_ratio [first_row] bronx_raw = None"
    by (simp add: find_match_def external_id_match_def fuzzy_match_def enumerate_eq_zip
        first_row_def new_location_fields raw_example_fields)
  show ?thesis
    unfolding run_scraper_def
    by (simp add: process_record_created[OF example_coords(1) m1]
        process_record_created[OF example_coords(2) m2[unfolded first_row_def]]
        first_row_def second_row_def zero_stats_def)
qed







lemma no_key_no_borough_never_matches:
  "raw_external_id r = [] \<Longrightarrow> raw_borough r = None \<Longrightarrow> find_match ratio db r = None"
  by (simp add: find_match_def external_id_match_def fuzzy_match_def)
















section \<open>Bounding box and circle\<close>

text \<open>Polynomial bounds of the sine and a lower bound of \<open>pi\<close>.\<close>

lemma sum_less_5: "(\<Sum>m<5. f m) = f 0 + f 1 + f 2 + f 3 + (f 4 :: real)" for f :: "nat \<Rightarrow> real"
  by (simp add: eval_nat_numeral)

lemma sum_less_3: "(\<Sum>m<3. f m) = f 0 + f 1 + (f 2 :: real)" for f :: "nat \<Rightarrow> real"
  by (simp add: eval_nat_numeral)

lemma sin_coeff_values:
  "sin_coeff 0 = 0" "sin_coeff 1 = 1" "sin_coeff 2 = 0" "sin_coeff 3 = - (1 / 6)" "sin_coeff 4 = 0"
  by (simp_all add: sin_coeff_def fact_numeral)

lemma sin_upper_poly:
  fixes x :: real
  assumes "0 \<le> x"
  shows "sin x \<le> x - x^3 / 6 + x^5 / 120"
proof -
  have "(\<Sum>m<5. sin_coeff m * x ^ m) = x - x^3 / 6"
    unfolding sum_less_5 sin_coeff_values by simp
  moreover have "inverse (fact 5) * \<bar>x\<bar> ^ 5 = x^5 / 120"
    using assms by (simp add: fact_numeral)
  ultimately have "\<bar>sin x - (x - x^3 / 6)\<bar> \<le> x^5 / 120"
    using Maclaurin_sin_bound[of x 5] by simp
  then show ?thesis by linarith
qed

lemma sin_lower_poly:
  fixes x :: real
  assumes "0 \<le> x"
  shows "x - x^3 / 6 \<le> sin x"
proof -
  have "(\<Sum>m<3. sin_coeff m * x ^ m) = x"
    unfolding sum_less_3 sin_coeff_values by simp
  moreover have "inverse (fact 3) * \<bar>x\<bar> ^ 3 = x^3 / 6"
    using assms by (simp add: fact_numeral)
  ultimately have "\<bar>sin x - x\<bar> \<le> x^3 / 6"
    using Maclaurin_sin_bound[of x 3] by simp
  then show ?thesis by linarith
qed

lemma pi_lower: "3.141 \<le> pi"
proof (rule ccontr)
  assume "\<not> 3.141 \<le> pi"
  then have lt: "pi < 3.141" by simp
  define x where "x = pi / 6"
  define c :: real where "c = 0.5235"
  have x0: "0 \<le> x" by (simp add: x_def)
  have xc: "x \<le> c" using lt by (simp add: x_def c_def)
  have c1: "c \<le> 1" by (simp add: c_def)
  have "1 / 2 = sin x" by (simp add: x_def sin_30)
  also have "\<dots> \<le> x - x^3 / 6 + x^5 / 120" by (rule sin_upper_poly[OF x0])
  also have "\<dots> \<le> c - c^3 / 6 + c^5 / 120"
  proof -
    have f: "c^3 - x^3 = (c - x) * (c\<^sup>2 + c * x + x\<^sup>2)"
      by (simp add: power2_eq_square power3_eq_cube algebra_simps)
    have "c\<^sup>2 \<le> 1" using c1 xc x0 by (simp add: power_le_one_iff c_def)
    moreover have "c * x \<le> 1 * 1" using c1 xc x0 by (intro mult_mono) (simp_all add: c_def)
    moreover have "x\<^sup>2 \<le> 1" using c1 xc x0 by (simp add: power_le_one_iff abs_le_iff)
    ultimately have "c\<^sup>2 + c * x + x\<^sup>2 \<le> 6" by simp
    then have "(c - x) * (c\<^sup>2 + c * x + x\<^sup>2) \<le> (c - x) * 6"
      using xc by (intro mult_left_mono) simp_all
    with f have a: "(c^3 - x^3) / 6 \<le> c - x" by simp
    have b: "x^5 \<le> c^5" using xc x0 by (rule power_mono)
    from a b show ?thesis by (simp add: field_simps)
  qed
  also have "\<dots> < 1 / 2" by (simp add: c_def power_divide)
  finally show False by simp
qed

text \<open>
  The angle \<open>atan2 (sqrt a) (sqrt (1 - a))\<close> of the haversine formula lies in the first
  quadrant and has sine \<open>sqrt a\<close>.
\<close>

lemma atan2_haversine_angle:
  assumes "0 \<le> a" and "a \<le> 1"
  shows "0 \<le> atan2 (sqrt a) (sqrt (1 - a))"
    and "atan2 (sqrt a) (sqrt (1 - a)) \<le> pi / 2"
    and "sin (atan2 (sqrt a) (sqrt (1 - a))) = sqrt a"
proof -
  let ?th = "atan2 (sqrt a) (sqrt (1 - a))"
  have "0 \<le> ?th \<and> ?th \<le> pi / 2 \<and> sin ?th = sqrt a"
  proof (cases "a = 1")
    case True
    then show ?thesis by (simp add: atan2_def)
  next
    case False
    with assms have lt: "0 < 1 - a" by simp
    then have pos: "0 < sqrt (1 - a)" by simp
    define t where "t = sqrt a / sqrt (1 - a)"
    have t0: "0 \<le> t" using assms pos by (simp add: t_def)
    have th: "?th = arctan t" using pos by (simp add: atan2_def t_def)
    have "1 + t\<^sup>2 = 1 / (1 - a)"
      using assms lt by (simp add: t_def power_divide field_simps)
    then have "sqrt (1 + t\<^sup>2) = 1 / sqrt (1 - a)"
      by (simp add: real_sqrt_divide)
    then have "sin (arctan t) = sqrt a"
      using pos by (simp add: sin_arctan t_def)
    moreover have "0 \<le> arctan t" using t0 by simp
    moreover have "arctan t \<le> pi / 2" using arctan_ubound[of t] by simp
    ultimately show ?thesis unfolding th by simp
  qed
  then show "0 \<le> ?th" "?th \<le> pi / 2" "sin ?th = sqrt a" by simp_all
qed

lemma abs_sin_half_range:
  assumes "\<bar>p\<bar> \<le> pi / 2"
  shows "sin \<bar>p\<bar> = \<bar>sin p\<bar>"
proof (cases "0 \<le> p")
  case True
  with assms have "0 \<le> sin p" by (intro sin_ge_zero) (use pi_ge_two in linarith)+
  with True show ?thesis by simp
next
  case False
  with assms have "0 \<le> sin (- p)" by (intro sin_ge_zero) (use pi_ge_two in linarith)+
  with False show ?thesis by simp
qed

lemma angle_le_of_sin_le:
  assumes "\<bar>p\<bar> \<le> pi / 2" and "0 \<le> th" and "th \<le> pi / 2" and "\<bar>sin p\<bar> \<le> sin th"
  shows "\<bar>p\<bar> \<le> th"
proof -
  have "sin \<bar>p\<bar> \<le> sin th" using assms(4) abs_sin_half_range[OF assms(1)] by simp
  moreover have "- (pi / 2) \<le> \<bar>p\<bar>" "- (pi / 2) \<le> th" using assms(2) by (simp_all add: order_trans[of _ 0])
  ultimately show ?thesis
    using sin_mono_le_eq[of "\<bar>p\<bar>" th] assms(1,3) by simp
qed

text \<open>
  The estimate behind the longitude offset: at a centre whose latitude has cosine at least
  one half, a point at angular distance \<open>2 * th\<close> with \<open>th \<le> 1/250\<close> has half
  longitude difference \<open>u\<close> with \<open>u * cos p1 \<le> 1.001 * th\<close>.
\<close>

lemma longitude_angle_bound:
  fixes p1 p2 u th :: real
  assumes c1half: "1 / 2 \<le> cos p1"
    and c2nn: "0 \<le> cos p2"
    and u0: "0 \<le> u" and u1: "u \<le> pi / 2"
    and th0: "0 \<le> th" and th1: "th \<le> 1 / 250"
    and eq: "(sin ((p2 - p1) / 2))\<^sup>2 + cos p1 * cos p2 * (sin u)\<^sup>2 = (sin th)\<^sup>2"
  shows "u * cos p1 \<le> (1001 / 1000) * th"
proof -
  define p where "p = (p2 - p1) / 2"
  define s where "s = sin th"
  define t where "t = \<bar>sin p\<bar>"
  define c1 where "c1 = cos p1"
  define c2 where "c2 = cos p2"
  define S where "S = sin u"
  have c1h: "1 / 2 \<le> c1" using c1half by (simp add: c1_def)
  have c20: "0 \<le> c2" using c2nn by (simp add: c2_def)
  have thpi: "th \<le> pi" using th1 pi_ge_two by linarith
  have s0: "0 \<le> s" unfolding s_def using th0 thpi by (rule sin_ge_zero)
  have sth: "s \<le> th" unfolding s_def using th0 by (rule sin_x_le_x)
  have s250: "s \<le> 1 / 250" using sth th1 by linarith
  have S0: "0 \<le> S" unfolding S_def using u0 u1 pi_ge_two by (intro sin_ge_zero) linarith+
  have t0: "0 \<le> t" by (simp add: t_def)
  have t2: "t\<^sup>2 = (sin p)\<^sup>2" by (simp add: t_def)
  have eq': "t\<^sup>2 + c1 * c2 * S\<^sup>2 = s\<^sup>2"
    using eq unfolding t2 p_def c1_def c2_def S_def s_def by simp
  have prod0: "0 \<le> c1 * c2 * S\<^sup>2"
    using c1h c20 by (intro mult_nonneg_nonneg) simp_all
  have ts2: "t\<^sup>2 \<le> s\<^sup>2" using eq' prod0 by linarith
  have ts: "t \<le> s" using ts2 s0 by (rule power2_le_imp_le)
  have t250: "t \<le> 1 / 250" using ts s250 by linarith
  have p2eq: "p2 = p1 + 2 * p" unfolding p_def by (simp add: diff_divide_distrib)
  have "c2 = c1 * cos (2 * p) - sin p1 * sin (2 * p)"
    unfolding c2_def c1_def by (subst p2eq) (rule cos_add)
  moreover have "cos (2 * p) = 1 - 2 * t\<^sup>2"
    unfolding t2 by (rule cos_double_sin)
  moreover have "sin p1 * sin (2 * p) \<le> 2 * t"
  proof -
    have "\<bar>sin (2 * p)\<bar> = 2 * t * \<bar>cos p\<bar>"
      by (simp add: sin_double abs_mult t_def)
    also have "\<dots> \<le> 2 * t * 1"
      using t0 by (intro mult_left_mono) simp_all
    finally have a: "\<bar>sin (2 * p)\<bar> \<le> 2 * t" by simp
    have "\<bar>sin p1 * sin (2 * p)\<bar> = \<bar>sin p1\<bar> * \<bar>sin (2 * p)\<bar>" by (rule abs_mult)
    also have "\<dots> \<le> 1 * (2 * t)"
      using a by (intro mult_mono) simp_all
    finally show ?thesis by simp
  qed
  ultimately have c2lo1: "c1 * (1 - 2 * t\<^sup>2) - 2 * t \<le> c2" by simp
  have "2 * t \<le> 4 * t * c1"
    using c1h t0 mult_left_mono[of "1 / 2" c1 "4 * t"] by simp
  with c2lo1 have c2lo: "c1 * (1 - 4 * t - 2 * t\<^sup>2) \<le> c2"
    by (simp add: algebra_simps)
  define q where "q = 1 - 4 * t - 2 * t\<^sup>2"
  have tt: "t\<^sup>2 \<le> 1 / 250"
  proof -
    have "t * t \<le> 1 * (1 / 250)" using t0 t250 by (intro mult_mono) simp_all
    then show ?thesis by (simp add: power2_eq_square)
  qed
  have qpos: "0 < q" unfolding q_def using t250 tt by linarith
  have step4: "(c1\<^sup>2 * S\<^sup>2) * q \<le> s\<^sup>2 - t\<^sup>2"
  proof -
    have "c1 * (c1 * q) * S\<^sup>2 \<le> c1 * c2 * S\<^sup>2"
      using c2lo c1h unfolding q_def
      by (intro mult_right_mono mult_left_mono) simp_all
    with eq' show ?thesis by (simp add: power2_eq_square algebra_simps)
  qed
  define X where "X = s\<^sup>2"
  define m where "m = (1001 / 1000) * X"
  have X0: "0 \<le> X" by (simp add: X_def)
  have X1: "X \<le> 1 / 62500"
  proof -
    have "s * s \<le> (1 / 250) * (1 / 250)" using s0 s250 by (intro mult_mono) simp_all
    then show ?thesis by (simp add: X_def power2_eq_square)
  qed
  have XX: "X * X \<le> X * (1 / 62500)" using X0 X1 by (intro mult_left_mono) simp_all
  have XT: "X * t\<^sup>2 \<le> X * X" using X0 ts2 unfolding X_def by (intro mult_left_mono) simp_all
  have step5: "s\<^sup>2 - t\<^sup>2 \<le> ((1001 / 1000) * s\<^sup>2) * q"
  proof -
    have sq: "0 \<le> (t - 2 * m)\<^sup>2" by simp
    have "(t - 2 * m)\<^sup>2 = t\<^sup>2 - 4 * m * t + 4 * m\<^sup>2"
      by (simp add: power2_eq_square algebra_simps)
    with sq have a: "4 * m * t \<le> t\<^sup>2 + 4 * m\<^sup>2" by linarith
    have m2: "4 * m\<^sup>2 = (4008004 / 1000000) * (X * X)"
      by (simp add: m_def power2_eq_square)
    have mt: "2 * m * t\<^sup>2 = (2002 / 1000) * (X * t\<^sup>2)"
      by (simp add: m_def)
    have mq: "m * q = m - 4 * m * t - 2 * m * t\<^sup>2"
      by (simp add: q_def algebra_simps)
    have mX: "m - X = X / 1000" by (simp add: m_def)
    have "X - t\<^sup>2 \<le> m * q"
      using a m2 mt XX XT X0 mq mX by linarith
    then show ?thesis by (simp add: m_def X_def)
  qed
  have step6: "c1 * S \<le> (2001 / 2000) * s"
  proof -
    from step4 step5 have "(c1\<^sup>2 * S\<^sup>2) * q \<le> ((1001 / 1000) * s\<^sup>2) * q"
      by (rule order_trans)
    with qpos have "c1\<^sup>2 * S\<^sup>2 \<le> (1001 / 1000) * s\<^sup>2"
      by (simp only: mult_le_cancel_right_pos)
    also have "\<dots> \<le> (4004001 / 4000000) * s\<^sup>2"
      by (intro mult_right_mono) simp_all
    also have "\<dots> = ((2001 / 2000) * s)\<^sup>2"
      by (simp add: power2_eq_square)
    finally have "c1\<^sup>2 * S\<^sup>2 \<le> ((2001 / 2000) * s)\<^sup>2" .
    moreover have "(c1 * S)\<^sup>2 = c1\<^sup>2 * S\<^sup>2" by (rule power_mult_distrib)
    ultimately have "(c1 * S)\<^sup>2 \<le> ((2001 / 2000) * s)\<^sup>2" by simp
    moreover have "0 \<le> (2001 / 2000) * s" using s0 by simp
    ultimately show ?thesis by (rule power2_le_imp_le)
  qed
  have cS: "c1 * S \<le> (2001 / 2000) * th" using step6 sth by linarith
  have Ssmall: "S \<le> 1 / 100"
  proof -
    have "(1 / 2) * S \<le> c1 * S" using c1h S0 by (intro mult_right_mono) simp_all
    with cS th1 show ?thesis by linarith
  qed
  have u50: "u \<le> 1 / 50"
  proof (rule ccontr)
    assume "\<not> u \<le> 1 / 50"
    then have lt: "(1 / 50 :: real) < u" by simp
    have "- (pi / 2) \<le> (1 / 50 :: real)" "(1 / 50 :: real) \<le> pi / 2" "- (pi / 2) \<le> u"
      using pi_ge_two u0 by linarith+
    with lt u1 have "sin (1 / 50 :: real) < sin u"
      using sin_mono_less_eq[of "1 / 50" u] by simp
    moreover have "(1 / 50 :: real) - (1 / 50)^3 / 6 \<le> sin (1 / 50)"
      by (rule sin_lower_poly) simp
    moreover have "(1 / 100 :: real) < 1 / 50 - (1 / 50)^3 / 6" by (simp add: power_divide)
    ultimately show False using Ssmall unfolding S_def by linarith
  qed
  have "u - u^3 / 6 \<le> S" unfolding S_def using u0 by (rule sin_lower_poly)
  moreover have "u^3 \<le> u * (1 / 2500)"
  proof -
    have "u * u \<le> (1 / 50) * (1 / 50)" using u0 u50 by (intro mult_mono) simp_all
    then have "u * (u * u) \<le> u * (1 / 2500)" using u0 by (intro mult_left_mono) simp_all
    then show ?thesis by (simp add: power3_eq_cube)
  qed
  ultimately have "(14999 / 15000) * u \<le> S" by linarith
  then have "c1 * ((14999 / 15000) * u) \<le> c1 * S"
    using c1h by (intro mult_left_mono) simp_all
  with cS have "(14999 / 15000) * (u * c1) \<le> (2001 / 2000) * th"
    by (simp add: algebra_simps)
  with th0 have "u * c1 \<le> (1001 / 1000) * th" by linarith
  then show ?thesis by (simp add: c1_def)
qed

lemma haversine_Inr_angle:
  assumes "haversine_distance lat1 lon1 lat2 lon2 = Inr d"
  obtains th where "0 \<le> th" "th \<le> pi / 2"
    "(sin th)\<^sup>2 = haversine_a lat1 lon1 lat2 lon2" "d = 6371000 * (2 * th)"
proof -
  define a where "a = haversine_a lat1 lon1 lat2 lon2"
  define th where "th = atan2 (sqrt a) (sqrt (1 - a))"
  have ok: "\<not> (a < 0 \<or> 1 - a < 0)"
  proof
    assume "a < 0 \<or> 1 - a < 0"
    then have "haversine_distance lat1 lon1 lat2 lon2 = Inl ValueError"
      unfolding haversine_distance_def Let_def a_def by simp
    with assms show False by simp
  qed
  then have a: "0 \<le> a" "a \<le> 1" by simp_all
  from ok have "haversine_distance lat1 lon1 lat2 lon2 = Inr (6371000 * (2 * th))"
    unfolding haversine_distance_def Let_def a_def th_def by simp
  with assms have d: "d = 6371000 * (2 * th)" by simp
  from atan2_haversine_angle[OF a] have t: "0 \<le> th" "th \<le> pi / 2" "sin th = sqrt a"
    unfolding th_def by simp_all
  from t(3) a(1) have "(sin th)\<^sup>2 = a" by simp
  then have sq: "(sin th)\<^sup>2 = haversine_a lat1 lon1 lat2 lon2" unfolding a_def .
  from t(1) t(2) sq d show thesis by (rule that)
qed

lemma sin_abs_square: "(sin \<bar>x\<bar>)\<^sup>2 = (sin x)\<^sup>2" for x :: real
  by (cases "0 \<le> x") simp_all

lemma radians_diff: "radians (x - y) = radians x - radians y"
  by (simp add: radians_def left_diff_distrib)

lemma radians_bound: "\<bar>x\<bar> \<le> b \<Longrightarrow> \<bar>radians x\<bar> \<le> b * (pi / 180)"
  by (simp add: radians_def abs_mult mult_right_mono)

lemma latitude_within_offset:
  assumes lat: "- 90 \<le> lat" "lat \<le> 90" and la: "- 90 \<le> la" "la \<le> 90"
    and r: "0 < radius_km"
    and h: "haversine_distance lat lon la lo = Inr d" and d: "d \<le> radius_km * 1000"
  shows "\<bar>la - lat\<bar> \<le> radius_km / 111"
proof -
  from haversine_Inr_angle[OF h] obtain th where
    th: "0 \<le> th" "th \<le> pi / 2" "(sin th)\<^sup>2 = haversine_a lat lon la lo" "d = 6371000 * (2 * th)"
    by blast
  define p where "p = radians (la - lat) / 2"
  have c1: "0 \<le> cos (radians lat)"
    using radians_bound[of lat 90] lat by (intro cos_ge_zero) (simp_all add: abs_le_iff)
  have c2: "0 \<le> cos (radians la)"
    using radians_bound[of la 90] la by (intro cos_ge_zero) (simp_all add: abs_le_iff)
  have "0 \<le> cos (radians lat) * cos (radians la) * (sin (radians (lo - lon) / 2))\<^sup>2"
    using c1 c2 by (intro mult_nonneg_nonneg) simp_all
  then have "(sin p)\<^sup>2 \<le> (sin th)\<^sup>2"
    unfolding th(3) haversine_a_def Let_def p_def by simp
  moreover have s0: "0 \<le> sin th" using th(1,2) pi_ge_two by (intro sin_ge_zero) linarith+
  ultimately have sp: "\<bar>sin p\<bar> \<le> sin th"
    using power2_le_imp_le[of "\<bar>sin p\<bar>" "sin th"] by simp
  have pb: "\<bar>p\<bar> \<le> pi / 2"
  proof -
    have "\<bar>la - lat\<bar> \<le> 180" using lat la by (simp add: abs_le_iff)
    from radians_bound[OF this] show ?thesis by (simp add: p_def)
  qed
  have "\<bar>p\<bar> \<le> th" by (rule angle_le_of_sin_le[OF pb th(1) th(2) sp])
  moreover have "th \<le> radius_km / 12742" using d th(4) by simp
  moreover have "\<bar>p\<bar> = \<bar>la - lat\<bar> * (pi / 360)"
    by (simp add: p_def radians_def abs_mult)
  ultimately have m: "\<bar>la - lat\<bar> * (pi / 360) \<le> radius_km / 12742" by linarith
  define z where "z = \<bar>la - lat\<bar>"
  have z0: "0 \<le> z" by (simp add: z_def)
  have "z * (3141 / 360000) \<le> z * (pi / 360)"
    using pi_lower z0 by (intro mult_left_mono) simp_all
  with m have "z * (3141 / 360000) \<le> radius_km / 12742" unfolding z_def by linarith
  with r have "z \<le> radius_km / 111" by linarith
  then show ?thesis by (simp add: z_def)
qed

lemma cos_radians_half:
  assumes "- 60 \<le> lat" "lat \<le> 60"
  shows "1 / 2 \<le> cos (radians lat)"
proof -
  have "\<bar>lat\<bar> \<le> 60" using assms by (simp add: abs_le_iff)
  from radians_bound[OF this] have b: "\<bar>radians lat\<bar> \<le> pi / 3" by simp
  have "cos (pi / 3) \<le> cos \<bar>radians lat\<bar>"
    using b by (intro cos_monotone_0_pi_le) simp_all
  then show ?thesis by (simp add: cos_60)
qed

lemma longitude_within_offset:
  assumes lat: "- 60 \<le> lat" "lat \<le> 60" and la: "- 90 \<le> la" "la \<le> 90"
    and r: "0 < radius_km" "radius_km \<le> 50" and lon: "\<bar>lo - lon\<bar> \<le> 180"
    and h: "haversine_distance lat lon la lo = Inr d" and d: "d \<le> radius_km * 1000"
  shows "\<bar>lo - lon\<bar> \<le> radius_km / (111 * cos (radians lat))"
proof -
  from haversine_Inr_angle[OF h] obtain th where
    th: "0 \<le> th" "th \<le> pi / 2" "(sin th)\<^sup>2 = haversine_a lat lon la lo" "d = 6371000 * (2 * th)"
    by blast
  have thr: "th \<le> radius_km / 12742" using d th(4) by simp
  with r(2) have th250: "th \<le> 1 / 250" by linarith
  define c where "c = cos (radians lat)"
  have ch: "1 / 2 \<le> c" unfolding c_def using lat by (rule cos_radians_half)
  have c2: "0 \<le> cos (radians la)"
    using radians_bound[of la 90] la by (intro cos_ge_zero) (simp_all add: abs_le_iff)
  define u where "u = \<bar>radians (lo - lon) / 2\<bar>"
  define z where "z = \<bar>lo - lon\<bar>"
  have z0: "0 \<le> z" by (simp add: z_def)
  have uz: "u = z * (pi / 360)" by (simp add: u_def z_def radians_def abs_mult)
  have u0: "0 \<le> u" by (simp add: u_def)
  have u1: "u \<le> pi / 2"
  proof -
    have "z * (pi / 360) \<le> 180 * (pi / 360)"
      using lon unfolding z_def by (intro mult_right_mono) simp_all
    then show ?thesis unfolding uz by simp
  qed
  have eq: "(sin ((radians la - radians lat) / 2))\<^sup>2 +
      cos (radians lat) * cos (radians la) * (sin u)\<^sup>2 = (sin th)\<^sup>2"
    unfolding th(3) haversine_a_def Let_def u_def sin_abs_square radians_diff by simp
  from longitude_angle_bound[OF ch[unfolded c_def] c2 u0 u1 th(1) th250 eq]
  have "u * c \<le> (1001 / 1000) * th" by (simp add: c_def)
  with thr have b: "z * (pi / 360) * c \<le> (1001 / 1000) * (radius_km / 12742)"
    unfolding uz by linarith
  define w where "w = z * c"
  have w0: "0 \<le> w" unfolding w_def using z0 ch by (intro mult_nonneg_nonneg) simp_all
  have "w * (3141 / 360000) \<le> w * (pi / 360)"
    using pi_lower w0 by (intro mult_left_mono) simp_all
  moreover have "w * (pi / 360) = z * (pi / 360) * c" by (simp add: w_def)
  ultimately have "w * (3141 / 360000) \<le> (1001 / 1000) * (radius_km / 12742)"
    using b by linarith
  with r(1) have "w \<le> radius_km / 111" by linarith
  then have "z * c \<le> radius_km / 111" by (simp add: w_def)
  moreover have cpos: "0 < c" using ch by linarith
  ultimately have "z \<le> (radius_km / 111) / c"
    by (simp only: pos_le_divide_eq)
  then show ?thesis by (simp add: z_def c_def)
qed

text \<open>
  Without a bound on the radius the longitude interval fails even away from the
  antimeridian: the pole is within 13000 km of a centre on the equator, and a row stored
  there with longitude 180 is outside the box.
\<close>

lemma pole_example:
  "haversine_distance 0 0 90 180 = Inr (3185500 * pi) \<and>
   3185500 * pi \<le> 13000 * 1000 \<and>
   bounding_box 0 0 13000 = Inr (- (13000 / 111), 13000 / 111, - (13000 / 111), 13000 / 111) \<and>
   \<not> ((180 :: real) \<le> 13000 / 111)"
proof -
  have r1: "radians (90 - 0) / 2 = pi / 4" "radians 90 = pi / 2" "radians (180 - 0) / 2 = pi / 2"
    "radians 0 = 0"
    by (simp_all add: radians_def)
  have a: "haversine_a 0 0 90 180 = 1 / 2"
    unfolding haversine_a_def Let_def r1 by (simp add: sin_45 power_divide)
  have "sqrt (1 / 2) / sqrt (1 / 2) = (1 :: real)" by simp
  then have t: "atan2 (sqrt (1 / 2)) (sqrt (1 / 2)) = pi / 4"
    by (simp add: atan2_def arctan_one)
  have h: "haversine_distance 0 0 90 180 = Inr (3185500 * pi)"
    unfolding haversine_distance_def Let_def a using t by simp
  have d: "3185500 * pi \<le> 13000 * 1000"
    using pi_less_4 by simp
  have b: "bounding_box 0 0 13000 = Inr (- (13000 / 111), 13000 / 111, - (13000 / 111), 13000 / 111)"
    by (simp add: bounding_box_def Let_def radians_def)
  from h d b show ?thesis by simp
qed

text \<open>
  C1, as stated: every point within the radius has its longitude in the interval of the
  box. The centre at longitude 180 and a point at longitude -180 on the equator are the
  same place, at distance 0, and -180 is not in the longitude interval around 180: the box
  does not wrap across the antimeridian.
\<close>

theorem antimeridian_counterexample:
  "haversine_distance 0 180 0 (- 180) = Inr 0 \<and>
   (0 :: real) \<le> 1 * 1000 \<and>
   bounding_box 0 180 1 = Inr (- (1 / 111), 1 / 111, 180 - 1 / 111, 180 + 1 / 111) \<and>
   \<not> (180 - 1 / 111 \<le> (- 180 :: real))"
proof -
  have a: "haversine_a 0 180 0 (- 180) = 0"
    by (simp add: haversine_a_def Let_def radians_def)
  have h: "haversine_distance 0 180 0 (- 180) = Inr 0"
    by (simp add: haversine_distance_def Let_def a atan2_def)
  have b: "bounding_box 0 180 1 = Inr (- (1 / 111), 1 / 111, 180 - 1 / 111, 180 + 1 / 111)"
    by (simp add: bounding_box_def Let_def radians_def)
  from h b show ?thesis by simp
qed

text \<open>
  C1, amended: for a centre with latitude strictly between -90 and 90 and a positive radius,
  a point with latitude in \<open>[-90, 90]\<close> whose haversine distance from the centre is at
  most \<open>radius_km * 1000\<close> metres has its latitude in
  \<open>[lat - radius_km / 111, lat + radius_km / 111]\<close>; if moreover the centre's latitude is
  in \<open>[-60, 60]\<close>, the radius is at most 50 km and the two longitudes differ by at most
  180 degrees, its longitude is in
  \<open>[lon - radius_km / (111 * cos (radians lat)), lon + radius_km / (111 * cos (radians lat))]\<close>,
  so that a row with these coordinates that is not soft-deleted passes the prefilter.
\<close>

theorem bounding_box_contains_circle:
  assumes "- 90 < lat" and "lat < 90" and "- 90 \<le> la" and "la \<le> 90"
    and "0 < radius_km"
    and "haversine_distance lat lon la lo = Inr d" and "d \<le> radius_km * 1000"
  shows "\<exists>min_lat max_lat min_lon max_lon.
           bounding_box lat lon radius_km = Inr (min_lat, max_lat, min_lon, max_lon) \<and>
           min_lat = lat - radius_km / 111 \<and>
           max_lat = lat + radius_km / 111 \<and>
           min_lon = lon - radius_km / (111 * cos (radians lat)) \<and>
           max_lon = lon + radius_km / (111 * cos (radians lat)) \<and>
           min_lat \<le> la \<and> la \<le> max_lat \<and>
           (- 60 \<le> lat \<and> lat \<le> 60 \<and> radius_km \<le> 50 \<and> \<bar>lo - lon\<bar> \<le> 180 \<longrightarrow>
              min_lon \<le> lo \<and> lo \<le> max_lon \<and>
              (\<forall>l. deleted_at l = None \<and> latitude l = Some la \<and> longitude l = Some lo \<longrightarrow>
                 in_rectangle (min_lat, max_lat, min_lon, max_lon) l))"
proof -
  have "\<bar>radians lat\<bar> < pi / 2"
  proof -
    have "\<bar>lat\<bar> * (pi / 180) < 90 * (pi / 180)"
      using assms(1,2) by (intro mult_strict_right_mono) (simp_all add: abs_less_iff)
    then show ?thesis by (simp add: radians_def abs_mult)
  qed
  then have "0 < cos (radians lat)"
    by (intro cos_gt_zero_pi) (simp_all add: abs_less_iff)
  then have box: "bounding_box lat lon radius_km =
      Inr (lat - radius_km / 111, lat + radius_km / 111,
           lon - radius_km / (111 * cos (radians lat)), lon + radius_km / (111 * cos (radians lat)))"
    by (simp add: bounding_box_def Let_def)
  have "\<bar>la - lat\<bar> \<le> radius_km / 111"
    using assms(1,2) by (intro latitude_within_offset[OF _ _ assms(3,4,5,6,7)]) simp_all
  then have "lat - radius_km / 111 \<le> la" "la \<le> lat + radius_km / 111"
    by linarith+
  then have latb: "lat - radius_km / 111 \<le> la \<and> la \<le> lat + radius_km / 111"
    by blast
  have lonb: "lon - radius_km / (111 * cos (radians lat)) \<le> lo \<and>
              lo \<le> lon + radius_km / (111 * cos (radians lat))"
    if c: "- 60 \<le> lat \<and> lat \<le> 60 \<and> radius_km \<le> 50 \<and> \<bar>lo - lon\<bar> \<le> 180"
  proof -
    from c have c': "- 60 \<le> lat" "lat \<le> 60" "radius_km \<le> 50" "\<bar>lo - lon\<bar> \<le> 180"
      by simp_all
    have "\<bar>lo - lon\<bar> \<le> radius_km / (111 * cos (radians lat))"
      by (rule longitude_within_offset[OF c'(1,2) assms(3,4,5) c'(3,4) assms(6,7)])
    then have "lon - radius_km / (111 * cos (radians lat)) \<le> lo"
      "lo \<le> lon + radius_km / (111 * cos (radians lat))"
      by linarith+
    then show ?thesis by blast
  qed
  have rect: "\<forall>l. deleted_at l = None \<and> latitude l = Some la \<and> longitude l = Some lo \<longrightarrow>
      in_rectangle (lat - radius_km / 111, lat + radius_km / 111,
        lon - radius_km / (111 * cos (radians lat)), lon + radius_km / (111 * cos (radians lat))) l"
    if c: "- 60 \<le> lat \<and> lat \<le> 60 \<and> radius_km \<le> 50 \<and> \<bar>lo - lon\<bar> \<le> 180"
    using latb lonb[OF c] by (simp add: in_rectangle_def)
  from box latb lonb rect show ?thesis by blast
qed

theorem bounding_box_contains_circle_witness:
  "haversine_distance 0 0 0 (1 / 1000) = Inr (6371000 * radians (1 / 1000)) \<and>
   6371000 * radians (1 / 1000) \<le> 1 * 1000 \<and>
   bounding_box 0 0 1 = Inr (- (1 / 111), 1 / 111, - (1 / 111), 1 / 111) \<and>
   (\<exists>min_lat max_lat min_lon max_lon.
      bounding_box 0 0 1 = Inr (min_lat, max_lat, min_lon, max_lon) \<and>
      min_lat \<le> 0 \<and> 0 \<le> max_lat \<and> min_lon \<le> 1 / 1000 \<and> 1 / 1000 \<le> max_lon)"
proof -
  have h: "haversine_distance 0 0 0 (1 / 1000) = Inr (6371000 * radians (1 / 1000))"
    using haversine_equator[of "1 / 1000" 0] by simp
  have d: "6371000 * radians (1 / 1000) \<le> 1 * 1000"
    using far_distance_bounds(2) by simp
  have p: "(- 90 :: real) < 0" "(0 :: real) < 90" "(- 90 :: real) \<le> 0" "(0 :: real) \<le> 90"
    "(0 :: real) < 1"
    by simp_all
  from bounding_box_contains_circle[OF p h d]
  obtain min_lat max_lat min_lon max_lon where b:
    "bounding_box 0 0 1 = Inr (min_lat, max_lat, min_lon, max_lon)"
    "min_lat \<le> 0" "0 \<le> max_lat"
    "- 60 \<le> (0::real) \<and> (0::real) \<le> 60 \<and> (1::real) \<le> 50 \<and> \<bar>1 / 1000 - (0::real)\<bar> \<le> 180 \<longrightarrow>
       min_lon \<le> 1 / 1000 \<and> 1 / 1000 \<le> max_lon \<and>
       (\<forall>l. deleted_at l = None \<and> latitude l = Some 0 \<and> longitude l = Some (1 / 1000) \<longrightarrow>
          in_rectangle (min_lat, max_lat, min_lon, max_lon) l)"
    by (elim exE conjE)
  from b(4) have "min_lon \<le> 1 / 1000 \<and> 1 / 1000 \<le> max_lon" by simp
  with b(1-3) have "\<exists>min_lat max_lat min_lon max_lon.
      bounding_box 0 0 1 = Inr (min_lat, max_lat, min_lon, max_lon) \<and>
      min_lat \<le> 0 \<and> 0 \<le> max_lat \<and> min_lon \<le> 1 / 1000 \<and> 1 / 1000 \<le> max_lon"
    by blast
  with h d equator_box show ?thesis by (intro conjI)
qed

end
